theory Spec2Isabelle
  imports Main "HOL-Library.Word"
begin

section \<open>Go values\<close>

text \<open>
  A shallow embedding of \<^verbatim>\<open>goes.go\<close> (package goes, a client of the Elasticsearch HTTP API).
  Byte slices and Go strings are lists of bytes.  A value of type \<^verbatim>\<open>interface{}\<close> is a
  \<open>gvalue\<close>: the nil interface, or a value of one of the dynamic types the operations of
  \<^verbatim>\<open>goes.go\<close> build or inspect.  A Go map is an association list (looked up with
  \<open>map_of\<close>), \<open>None\<close> being the nil map.
\<close>

type_synonym bytes = string

datatype gtype =
    TInterface
  | TBool
  | TFloat64
  | TString
  | TSlice
  | TMap
  | TMapSlice
  | TStruct nat
  | TPtr gtype
  | TChan

datatype gvalue =
    GNil
  | GBool bool
  | GFloat64 int
  | GString string
  | GSlice "gvalue list"
  | GMap "(string \<times> gvalue) list option"
  | GMapSlice "(string \<times> gvalue) list option list"
  | GStruct "(string \<times> gvalue) list"
  | GPtr gvalue
  | GNilPtr gtype
  | GChan

text \<open>
  \<open>GFloat64 n\<close> is the \<^verbatim>\<open>float64\<close> of the integer \<open>n\<close> (what a JSON number such as a
  status or a count decodes to; no operation below computes with it).
  \<open>GSlice\<close> is a non-nil \<^verbatim>\<open>[]interface{}\<close>, \<open>GMap\<close> a \<^verbatim>\<open>map[string]interface{}\<close>, \<open>GMapSlice\<close> a
  \<^verbatim>\<open>[]map[string]interface{}\<close>, \<open>GStruct\<close> a struct value with its fields in declaration
  order, \<open>GPtr v\<close> a non-nil pointer to \<open>v\<close>, \<open>GNilPtr t\<close> the nil pointer of type
  \<^verbatim>\<open>*t\<close>, and \<open>GChan\<close> a channel, a value of a kind that is neither map, struct nor pointer.
\<close>

type_synonym gmap = "(string \<times> gvalue) list option"

text \<open>\<^verbatim>\<open>len(m)\<close> and \<^verbatim>\<open>v, ok := m[k]\<close> on a \<^verbatim>\<open>map[string]interface{}\<close>.\<close>

definition len_map :: "gmap \<Rightarrow> nat" where
  "len_map m = (case m of None \<Rightarrow> 0 | Some kvs \<Rightarrow> length (remdups (map fst kvs)))"

definition lookup :: "gmap \<Rightarrow> string \<Rightarrow> gvalue option" where
  "lookup m k = (case m of None \<Rightarrow> None | Some kvs \<Rightarrow> map_of kvs k)"

text \<open>
  \<^verbatim>\<open>reflect.TypeOf\<close> on a non-nil interface value, with \<^verbatim>\<open>Kind\<close>, \<^verbatim>\<open>Elem\<close> and
  \<^verbatim>\<open>NumField\<close> of the type.  \<open>TInterface\<close> is the type of a pointee that is itself an
  \<^verbatim>\<open>interface{}\<close>; \<^verbatim>\<open>BulkSend\<close> asks for the type of \<^verbatim>\<open>doc.Fields\<close> only when it is not
  nil, and for \<^verbatim>\<open>Elem\<close> and \<^verbatim>\<open>NumField\<close> only on a pointer and a struct type.
\<close>

datatype Kind = Interface | Bool | Float64 | String | Slice | Map | Struct | Ptr | Chan

fun TypeOf :: "gvalue \<Rightarrow> gtype" where
  "TypeOf GNil = TInterface"
| "TypeOf (GBool b) = TBool"
| "TypeOf (GFloat64 n) = TFloat64"
| "TypeOf (GString s) = TString"
| "TypeOf (GSlice vs) = TSlice"
| "TypeOf (GMap m) = TMap"
| "TypeOf (GMapSlice ms) = TMapSlice"
| "TypeOf (GStruct fs) = TStruct (length fs)"
| "TypeOf (GPtr v) = TPtr (TypeOf v)"
| "TypeOf (GNilPtr t) = TPtr t"
| "TypeOf GChan = TChan"

fun Kind_of :: "gtype \<Rightarrow> Kind" where
  "Kind_of TInterface = Interface"
| "Kind_of TBool = Bool"
| "Kind_of TFloat64 = Float64"
| "Kind_of TString = String"
| "Kind_of TSlice = Slice"
| "Kind_of TMap = Map"
| "Kind_of TMapSlice = Slice"
| "Kind_of (TStruct n) = Struct"
| "Kind_of (TPtr t) = Ptr"
| "Kind_of TChan = Chan"

fun Elem :: "gtype \<Rightarrow> gtype" where
  "Elem (TPtr t) = t"
| "Elem t = t"

fun NumField :: "gtype \<Rightarrow> nat" where
  "NumField (TStruct n) = n"
| "NumField t = 0"

section \<open>The data model\<close>

text \<open>
  Modelled from the spec: the struct declarations of the package are not in \<^verbatim>\<open>goes.go\<close>.
  The records below have the fields that \<^verbatim>\<open>goes.go\<close> reads and writes, with the types of
  section 3 of the specification and of their uses in \<^verbatim>\<open>goes.go\<close> (\<^verbatim>\<open>d.Index.(string)\<close>,
  \<^verbatim>\<open>d.ID != nil\<close>, \<^verbatim>\<open>uint64(resp.StatusCode)\<close>, \<^verbatim>\<open>esResp.RawError[0]\<close>, ...).  A
  \<^verbatim>\<open>uint64\<close> is a 64-bit word.  An \<^verbatim>\<open>Items\<close> entry is a map from the command name to an
  \<^verbatim>\<open>Item\<close>; it is an association list, in the order in which \<^verbatim>\<open>range\<close> visits it.
\<close>

record Document =
  Index :: gvalue
  Type :: string
  ID :: gvalue
  BulkCommand :: string
  Fields :: gvalue

record SearchError =
  Msg :: string
  StatusCode :: "64 word"

record Item =
  Error :: string
  Status :: "64 word"

record Response =
  Status :: "64 word"
  Raw :: gmap
  Error :: string
  RawError :: bytes
  Errors :: bool
  Items :: "(string \<times> Item) list list"

record Request =
  Query :: gvalue
  IndexList :: "string list"
  TypeList :: "string list"
  Method :: string
  API :: string
  ID :: string
  ExtraArgs :: "(string \<times> string list) list"
  Body :: bytes
  BulkData :: bytes

text \<open>The zero values \<^verbatim>\<open>Response{}\<close> and \<^verbatim>\<open>Request{}\<close>.\<close>

definition Response0 :: Response where
  "Response0 = \<lparr>Status = 0, Raw = None, Error = [], RawError = [], Errors = False, Items = []\<rparr>"

definition Request0 :: Request where
  "Request0 = \<lparr>Query = GNil, IndexList = [], TypeList = [], Method = [], API = [], ID = [],
     ExtraArgs = [], Body = [], BulkData = []\<rparr>"

text \<open>
  Go's \<^verbatim>\<open>error\<close> values: a \<^verbatim>\<open>*SearchError\<close>, the result of \<^verbatim>\<open>errors.New\<close> or
  \<^verbatim>\<open>fmt.Errorf\<close>, or an error made by a library (\<^verbatim>\<open>encoding/json\<close>, \<^verbatim>\<open>net/http\<close>,
  \<^verbatim>\<open>io/ioutil\<close>).  A run-time panic is not an error value: a function that can panic
  returns \<open>Inl\<close> of the panic, or \<open>Inr\<close> of what it returns.
\<close>

datatype error = SearchErr SearchError | errorString string | libraryError string

datatype panic = TypeAssertion | NilPointerDereference | IndexOutOfRange

type_synonym result = "panic + (Response option \<times> error option)"

section \<open>The collaborators\<close>

text \<open>
  The request and response of \<^verbatim>\<open>net/http\<close>, as far as \<^verbatim>\<open>goes.go\<close> touches them (the
  transport adapter of the specification: method, scheme, host:port, path, query string and
  body go out; a status code and a body come back).  \<open>ReadAll\<close> is the result of
  \<^verbatim>\<open>ioutil.ReadAll(resp.Body)\<close>.
\<close>

record HTTPRequest =
  HTTPMethod :: string
  URL_Scheme :: string
  URL_Host :: string
  URL_Path :: string
  URL_RawQuery :: string
  HTTPBody :: bytes

record HTTPResponse =
  StatusCode :: int
  ReadAll :: "error + bytes"

text \<open>
  The client: \<^verbatim>\<open>Client{Host, Port, IsHTTPS, Client}\<close>, its last field the \<^verbatim>\<open>*http.Client\<close>,
  here the function \<^verbatim>\<open>c.Client.Do\<close>.
\<close>

record Client =
  Host :: string
  Port :: string
  IsHTTPS :: bool
  Client :: "HTTPRequest \<Rightarrow> error + HTTPResponse"

text \<open>
  What \<^verbatim>\<open>goes.go\<close> calls and does not define is a parameter of the model:
  \<^item> \<open>Marshal\<close> is \<^verbatim>\<open>json.Marshal\<close>;
  \<^item> \<open>Unmarshal_Response\<close> is \<^verbatim>\<open>json.Unmarshal(body, &esResp)\<close>: it takes the response
    as it stands and gives the response it leaves behind (\<open>None\<close> when it set the pointer
    \<^verbatim>\<open>esResp\<close> to nil) and its error;
  \<^item> \<open>Unmarshal_Raw\<close> is \<^verbatim>\<open>json.Unmarshal(body, &esResp.Raw)\<close>;
  \<^item> \<open>Unmarshal_string\<close> is \<^verbatim>\<open>json.Unmarshal(esResp.RawError, &esResp.Error)\<close>;
  \<^item> \<open>Request_Request\<close> is the method \<^verbatim>\<open>Request()\<close> of the \<^verbatim>\<open>Requester\<close> that \<^verbatim>\<open>Do\<close>
    is given, which builds the HTTP request of a \<^verbatim>\<open>Request\<close> or fails.
\<close>

record env =
  Marshal :: "gvalue \<Rightarrow> error + bytes"
  Unmarshal_Response :: "bytes \<Rightarrow> Response \<Rightarrow> Response option \<times> error option"
  Unmarshal_Raw :: "bytes \<Rightarrow> gmap \<Rightarrow> gmap \<times> error option"
  Unmarshal_string :: "bytes \<Rightarrow> string \<Rightarrow> string \<times> error option"
  Request_Request :: "Request \<Rightarrow> error + HTTPRequest"

text \<open>The requests handed to the HTTP client so far, oldest first: the network I/O done.\<close>

type_synonym net = "HTTPRequest list"

section \<open>Do and doRequest\<close>

text \<open>\<^verbatim>\<open>doRequest\<close> (lines 541-558).  A nil byte slice is the empty list.\<close>

definition doRequest :: "Client \<Rightarrow> HTTPRequest \<Rightarrow> net \<Rightarrow> (bytes \<times> 64 word \<times> error option) \<times> net" where
  "doRequest c req net =
     (case Client c req of
        Inl err \<Rightarrow> (([], 0, Some err), net @ [req])
      | Inr resp \<Rightarrow>
          (case ReadAll resp of
             Inl err \<Rightarrow> (([], word_of_int (StatusCode resp), Some err), net @ [req])
           | Inr body \<Rightarrow>
               if StatusCode resp > 201 \<and> StatusCode resp < 400
               then (([], word_of_int (StatusCode resp), Some (errorString body)), net @ [req])
               else ((body, word_of_int (StatusCode resp), None), net @ [req])))"

text \<open>Lines 527-538 of \<^verbatim>\<open>Do\<close>: the two encodings of the error become one string.\<close>

definition Do_unify :: "env \<Rightarrow> Response \<Rightarrow> result" where
  "Do_unify E esResp =
     (let esResp1 =
            (if length (RawError esResp) > 0 \<and> RawError esResp ! 0 = CHR 0x22
             then esResp\<lparr>Error := fst (Unmarshal_string E (RawError esResp) (Response.Error esResp))\<rparr>
             else esResp\<lparr>Error := RawError esResp\<rparr>);
          esResp2 = esResp1\<lparr>RawError := []\<rparr>
      in if Response.Error esResp2 \<noteq> []
         then Inr (Some esResp2,
                Some (SearchErr \<lparr>Msg = Response.Error esResp2, StatusCode = Response.Status esResp2\<rparr>))
         else Inr (Some esResp2, None))"

text \<open>
  Lines 516-525 of \<^verbatim>\<open>Do\<close>, then lines 527-538.  When the first decoding leaves the pointer
  nil, \<^verbatim>\<open>&esResp.Raw\<close> panics.
\<close>

definition Do_decode :: "env \<Rightarrow> HTTPRequest \<Rightarrow> bytes \<Rightarrow> Response \<Rightarrow> result" where
  "Do_decode E req body esResp =
     (if HTTPMethod req \<noteq> ''HEAD'' then
        (case Unmarshal_Response E body esResp of
           (p, Some err) \<Rightarrow> Inr (p, Some err)
         | (None, None) \<Rightarrow> Inl NilPointerDereference
         | (Some esResp1, None) \<Rightarrow>
             (case Unmarshal_Raw E body (Raw esResp1) of
                (raw, Some err) \<Rightarrow> Inr (Some (esResp1\<lparr>Raw := raw\<rparr>), Some err)
              | (raw, None) \<Rightarrow> Do_unify E (esResp1\<lparr>Raw := raw\<rparr>)))
      else Do_unify E esResp)"

text \<open>\<^verbatim>\<open>Do\<close> (lines 497-539).\<close>

definition Do :: "env \<Rightarrow> Client \<Rightarrow> Request \<Rightarrow> net \<Rightarrow> result \<times> net" where
  "Do E c r net =
     (case Request_Request E r of
        Inl err \<Rightarrow> (Inr (Some Response0, Some err), net)
      | Inr req0 \<Rightarrow>
          (let req = req0\<lparr>URL_Scheme := (if IsHTTPS c then ''https'' else ''http''),
                          URL_Host := Host c @ '':'' @ Port c\<rparr>
           in case doRequest c req net of
                ((body, statusCode, Some err), net') \<Rightarrow>
                  (Inr (Some (Response0\<lparr>Status := statusCode\<rparr>), Some err), net')
              | ((body, statusCode, None), net') \<Rightarrow>
                  (Do_decode E req body (Response0\<lparr>Status := statusCode\<rparr>), net')))"

section \<open>The operations\<close>

text \<open>\<^verbatim>\<open>IndicesExist\<close> (lines 408-418); \<^verbatim>\<open>resp.Status\<close> dereferences the pointer \<^verbatim>\<open>Do\<close> returned.\<close>

definition IndicesExist_Request :: "string list \<Rightarrow> Request" where
  "IndicesExist_Request indexes = Request0\<lparr>IndexList := indexes, Method := ''HEAD''\<rparr>"

definition IndicesExist :: "env \<Rightarrow> Client \<Rightarrow> string list \<Rightarrow> net \<Rightarrow> (panic + (bool \<times> error option)) \<times> net" where
  "IndicesExist E c indexes net =
     (case Do E c (IndicesExist_Request indexes) net of
        (Inl p, net') \<Rightarrow> (Inl p, net')
      | (Inr (None, err), net') \<Rightarrow> (Inl NilPointerDereference, net')
      | (Inr (Some resp, err), net') \<Rightarrow> (Inr (Response.Status resp = 200, err), net'))"

text \<open>
  \<^verbatim>\<open>Delete\<close> (lines 340-350).  The composite literal evaluates \<^verbatim>\<open>d.Index.(string)\<close>, then
  \<^verbatim>\<open>d.ID.(string)\<close>; a type assertion on another dynamic type, or on nil, panics.
\<close>

definition Delete :: "env \<Rightarrow> Client \<Rightarrow> Document \<Rightarrow> (string \<times> string list) list \<Rightarrow> net \<Rightarrow> result \<times> net" where
  "Delete E c d extraArgs net =
     (case Index d of
        GString index \<Rightarrow>
          (case Document.ID d of
             GString docid \<Rightarrow>
               Do E c (Request0\<lparr>IndexList := [index], TypeList := [Type d], ExtraArgs := extraArgs,
                 Method := ''DELETE'', ID := docid\<rparr>) net
           | _ \<Rightarrow> (Inl TypeAssertion, net))
      | _ \<Rightarrow> (Inl TypeAssertion, net))"

text \<open>\<^verbatim>\<open>Update\<close> (lines 421-436).\<close>

definition Update :: "env \<Rightarrow> Client \<Rightarrow> Document \<Rightarrow> gvalue \<Rightarrow> (string \<times> string list) list \<Rightarrow> net \<Rightarrow> result \<times> net" where
  "Update E c d query extraArgs net =
     (case Index d of
        GString index \<Rightarrow>
          (let r = Request0\<lparr>Query := query, IndexList := [index], TypeList := [Type d],
                     ExtraArgs := extraArgs, Method := ''POST'', API := ''_update''\<rparr>
           in if Document.ID d \<noteq> GNil
              then (case Document.ID d of
                      GString docid \<Rightarrow> Do E c (r\<lparr>ID := docid\<rparr>) net
                    | _ \<Rightarrow> (Inl TypeAssertion, net))
              else Do E c r net)
      | _ \<Rightarrow> (Inl TypeAssertion, net))"

text \<open>
  \<^verbatim>\<open>Buckets\<close> (lines 353-362) and \<^verbatim>\<open>Aggregation\<close> (lines 375-380).  \<^verbatim>\<open>Aggregation\<close> and
  \<^verbatim>\<open>Bucket\<close> are \<^verbatim>\<open>map[string]interface{}\<close>; the type assertions have no \<^verbatim>\<open>ok\<close>
  result, so they panic on a value of another type.
\<close>

fun Buckets_loop :: "gvalue list \<Rightarrow> gmap list \<Rightarrow> panic + gmap list" where
  "Buckets_loop [] result = Inr result"
| "Buckets_loop (bucket # buckets) result =
     (case bucket of
        GMap m \<Rightarrow> Buckets_loop buckets (result @ [m])
      | _ \<Rightarrow> Inl TypeAssertion)"

definition Buckets :: "gmap \<Rightarrow> panic + gmap list" where
  "Buckets a =
     (case lookup a ''buckets'' of
        Some buckets \<Rightarrow>
          (case buckets of
             GSlice bs \<Rightarrow> Buckets_loop bs []
           | _ \<Rightarrow> Inl TypeAssertion)
      | None \<Rightarrow> Inr [])"

definition Aggregation :: "gmap \<Rightarrow> string \<Rightarrow> panic + gmap" where
  "Aggregation b name =
     (case lookup b name of
        Some agg \<Rightarrow>
          (case agg of
             GMap m \<Rightarrow> Inr m
           | _ \<Rightarrow> Inl TypeAssertion)
      | None \<Rightarrow> Inr (Some []))"

text \<open>
  \<^verbatim>\<open>modifyAlias\<close> (lines 450-471).  \<^verbatim>\<open>make([]map[string]interface{}, 1)\<close> is a slice of
  one nil map; the loop appends one entry for each index.
\<close>

fun modifyAlias_loop :: "string \<Rightarrow> string \<Rightarrow> string list \<Rightarrow> gmap list \<Rightarrow> gmap list" where
  "modifyAlias_loop action alias [] actions = actions"
| "modifyAlias_loop action alias (index # indexes) actions =
     modifyAlias_loop action alias indexes
       (actions @ [Some [(action, GMap (Some [(''index'', GString index), (''alias'', GString alias)]))]])"

definition modifyAlias_Request :: "string \<Rightarrow> string \<Rightarrow> string list \<Rightarrow> Request" where
  "modifyAlias_Request action alias indexes =
     (let command = Some [(''actions'', GMapSlice (modifyAlias_loop action alias indexes (replicate 1 None)))]
      in Request0\<lparr>Query := GMap command, Method := ''POST'', API := ''_aliases''\<rparr>)"

definition modifyAlias :: "env \<Rightarrow> Client \<Rightarrow> string \<Rightarrow> string \<Rightarrow> string list \<Rightarrow> net \<Rightarrow> result \<times> net" where
  "modifyAlias E c action alias indexes net = Do E c (modifyAlias_Request action alias indexes) net"

definition AddAlias :: "env \<Rightarrow> Client \<Rightarrow> string \<Rightarrow> string list \<Rightarrow> net \<Rightarrow> result \<times> net" where
  "AddAlias E c alias indexes net = modifyAlias E c ''add'' alias indexes net"

definition RemoveAlias :: "env \<Rightarrow> Client \<Rightarrow> string \<Rightarrow> string list \<Rightarrow> net \<Rightarrow> result \<times> net" where
  "RemoveAlias E c alias indexes net = modifyAlias E c ''remove'' alias indexes net"

section \<open>BulkSend\<close>

text \<open>\<^verbatim>\<open>bytes.Join\<close>, and \<^verbatim>\<open>bytes.Split\<close> on a separator of one byte.\<close>

fun bytes_Join :: "bytes list \<Rightarrow> bytes \<Rightarrow> bytes" where
  "bytes_Join [] sep = []"
| "bytes_Join [x] sep = x"
| "bytes_Join (x # y # ys) sep = x @ sep @ bytes_Join (y # ys) sep"

fun bytes_Split :: "bytes \<Rightarrow> char \<Rightarrow> bytes list" where
  "bytes_Split [] sep = [[]]"
| "bytes_Split (x # xs) sep =
     (if x = sep then [] # bytes_Split xs sep
      else (case bytes_Split xs sep of
              [] \<Rightarrow> [[x]]
            | s # ss \<Rightarrow> (x # s) # ss))"

text \<open>The action of a document: the map literal of lines 156-162.\<close>

definition Document_action :: "Document \<Rightarrow> gvalue" where
  "Document_action doc =
     GMap (Some [(BulkCommand doc,
       GMap (Some [(''_index'', Index doc), (''_type'', GString (Type doc)), (''_id'', Document.ID doc)]))])"

text \<open>
  Lines 171-187: what \<^verbatim>\<open>BulkSend\<close> decides from \<^verbatim>\<open>doc.Fields\<close>.  \<open>Inr True\<close>: the source
  line is encoded; \<open>Inr False\<close>: the loop goes on to the next document (\<^verbatim>\<open>Fields\<close> is nil, or
  \<^verbatim>\<open>continue\<close>); \<open>Inl\<close>: \<^verbatim>\<open>BulkSend\<close> returns this error.
\<close>

definition BulkSend_Fields :: "gvalue \<Rightarrow> error + bool" where
  "BulkSend_Fields flds =
     (if flds \<noteq> GNil then
        (case flds of
           GMap docFields \<Rightarrow> if len_map docFields = 0 then Inr False else Inr True
         | _ \<Rightarrow>
            (let typeOfFields = TypeOf flds;
                 typeOfFields1 = (if Kind_of typeOfFields = Ptr then Elem typeOfFields else typeOfFields)
             in if Kind_of typeOfFields1 \<noteq> Struct
                then Inl (errorString ''Document fields not in struct or map[string]interface{} format'')
                else if NumField typeOfFields1 = 0 then Inr False
                else Inr True))
      else Inr False)"

text \<open>
  The loop of lines 155-197 over the documents, on the array \<^verbatim>\<open>bulkData\<close> and the index
  \<^verbatim>\<open>i\<close>.  \<open>Inl\<close>: \<^verbatim>\<open>BulkSend\<close> has returned (or panicked on an index out of range);
  \<open>Inr\<close>: the array and the index after the last document.
\<close>

fun BulkSend_loop :: "env \<Rightarrow> Document list \<Rightarrow> bytes list \<Rightarrow> nat \<Rightarrow> result + (bytes list \<times> nat)" where
  "BulkSend_loop E [] bulkData i = Inr (bulkData, i)"
| "BulkSend_loop E (doc # documents) bulkData i =
     (case Marshal E (Document_action doc) of
        Inl err \<Rightarrow> Inl (Inr (Some Response0, Some err))
      | Inr action \<Rightarrow>
          if \<not> i < length bulkData then Inl (Inl IndexOutOfRange)
          else
            (case BulkSend_Fields (Fields doc) of
               Inl err \<Rightarrow> Inl (Inr (Some Response0, Some err))
             | Inr False \<Rightarrow> BulkSend_loop E documents (bulkData[i := action]) (i + 1)
             | Inr True \<Rightarrow>
                 (case Marshal E (Fields doc) of
                    Inl err \<Rightarrow> Inl (Inr (Some Response0, Some err))
                  | Inr sources \<Rightarrow>
                      if \<not> i + 1 < length bulkData then Inl (Inl IndexOutOfRange)
                      else BulkSend_loop E documents (bulkData[i := action, i + 1 := sources]) (i + 2))))"

text \<open>Lines 152-205: the bytes that become \<^verbatim>\<open>BulkData\<close>.\<close>

definition BulkSend_encode :: "env \<Rightarrow> Document list \<Rightarrow> result + bytes" where
  "BulkSend_encode E documents =
     (case BulkSend_loop E documents (replicate (length documents * 2 + 1) []) 0 of
        Inl res \<Rightarrow> Inl res
      | Inr (bulkData, i) \<Rightarrow>
          if length bulkData = 0 then Inl (Inl IndexOutOfRange)
          else Inr (bytes_Join (bulkData[length bulkData - 1 := []]) [CHR 0x0A]))"

text \<open>
  Lines 213-222: the first item with an error, the items in order and the entries of each
  item's map in the order \<^verbatim>\<open>range\<close> visits them.
\<close>

definition BulkSend_item_error :: "(string \<times> Item) list list \<Rightarrow> Item option" where
  "BulkSend_item_error items = List.find (\<lambda>i. Item.Error i \<noteq> []) (map snd (concat items))"

text \<open>\<^verbatim>\<open>BulkSend\<close> (lines 133-225).\<close>

definition BulkSend :: "env \<Rightarrow> Client \<Rightarrow> Document list \<Rightarrow> net \<Rightarrow> result \<times> net" where
  "BulkSend E c documents net =
     (case BulkSend_encode E documents of
        Inl res \<Rightarrow> (res, net)
      | Inr data \<Rightarrow>
          (case Do E c (Request0\<lparr>Method := ''POST'', API := ''_bulk'', BulkData := data\<rparr>) net of
             (Inl p, net') \<Rightarrow> (Inl p, net')
           | (Inr (resp, Some err), net') \<Rightarrow> (Inr (resp, Some err), net')
           | (Inr (None, None), net') \<Rightarrow> (Inl NilPointerDereference, net')
           | (Inr (Some resp, None), net') \<Rightarrow>
               if Errors resp then
                 (case BulkSend_item_error (Items resp) of
                    Some i \<Rightarrow>
                      (Inr (Some resp, Some (SearchErr \<lparr>Msg = Item.Error i, StatusCode = Item.Status i\<rparr>)), net')
                  | None \<Rightarrow>
                      (Inr (Some resp,
                         Some (SearchErr \<lparr>Msg = ''Unknown error while bulk indexing'', StatusCode = 0\<rparr>)), net'))
               else (Inr (Some resp, None), net')))"

section \<open>The bulk format, in the words of the specification\<close>

text \<open>
  The specification's reading of \<^verbatim>\<open>Fields\<close>, to compare with what \<open>BulkSend_Fields\<close>
  computes.  \<open>Fields_malformed\<close>: the value is there and is neither a string-keyed mapping
  nor a struct nor a pointer to a struct.  \<open>Fields_nonempty\<close>: a non-empty mapping, or a
  struct (or pointer to a struct) with at least one field.
\<close>

fun is_struct :: "gtype \<Rightarrow> bool" where
  "is_struct (TStruct n) = True"
| "is_struct t = False"

fun is_struct_or_pointer :: "gtype \<Rightarrow> bool" where
  "is_struct_or_pointer (TStruct n) = True"
| "is_struct_or_pointer (TPtr t) = is_struct t"
| "is_struct_or_pointer t = False"

fun Fields_malformed :: "gvalue \<Rightarrow> bool" where
  "Fields_malformed GNil = False"
| "Fields_malformed (GMap m) = False"
| "Fields_malformed v = (\<not> is_struct_or_pointer (TypeOf v))"

fun Fields_nonempty :: "gvalue \<Rightarrow> bool" where
  "Fields_nonempty (GMap m) = (len_map m \<noteq> 0)"
| "Fields_nonempty (GStruct fs) = (fs \<noteq> [])"
| "Fields_nonempty (GPtr (GStruct fs)) = (fs \<noteq> [])"
| "Fields_nonempty (GNilPtr (TStruct n)) = (n \<noteq> 0)"
| "Fields_nonempty v = False"

text \<open>
  The JSON lines of one document: its action line, then its source line when
  \<^verbatim>\<open>Fields\<close> is not empty.  \<open>bulk_lines\<close>: the lines of a batch in order, or the first
  failure met on the way (an encoding that fails, or malformed \<^verbatim>\<open>Fields\<close>).
\<close>

definition Fields_error :: error where
  "Fields_error = errorString ''Document fields not in struct or map[string]interface{} format''"

definition Document_lines :: "env \<Rightarrow> Document \<Rightarrow> error + bytes list" where
  "Document_lines E d =
     (case Marshal E (Document_action d) of
        Inl err \<Rightarrow> Inl err
      | Inr action \<Rightarrow>
          if Fields_malformed (Fields d) then Inl Fields_error
          else if Fields_nonempty (Fields d)
          then (case Marshal E (Fields d) of
                  Inl err \<Rightarrow> Inl err
                | Inr sources \<Rightarrow> Inr [action, sources])
          else Inr [action])"

fun bulk_lines :: "env \<Rightarrow> Document list \<Rightarrow> error + bytes list" where
  "bulk_lines E [] = Inr []"
| "bulk_lines E (d # ds) =
     (case Document_lines E d of
        Inl err \<Rightarrow> Inl err
      | Inr ls \<Rightarrow>
          (case bulk_lines E ds of
             Inl err \<Rightarrow> Inl err
           | Inr rest \<Rightarrow> Inr (ls @ rest)))"

text \<open>
  A line of the bulk body: not empty, and without a newline in it.  \<open>line_or_error\<close>: an
  encoding that, when it succeeds, gives a line (as the compact output of \<^verbatim>\<open>json.Marshal\<close>
  is).
\<close>

definition is_line :: "bytes \<Rightarrow> bool" where
  "is_line b = (b \<noteq> [] \<and> CHR 0x0A \<notin> set b)"

definition line_or_error :: "error + bytes \<Rightarrow> bool" where
  "line_or_error r = (case r of Inl err \<Rightarrow> True | Inr b \<Rightarrow> is_line b)"

section \<open>Concrete collaborators for the examples\<close>

text \<open>
  A JSON encoder on \<open>gvalue\<close>, after the compact output of \<^verbatim>\<open>json.Marshal\<close>: the keys of a
  map sorted, the fields of a struct in order under their names, the bytes of a string escaped,
  a channel refused.
\<close>

fun bytes_less :: "bytes \<Rightarrow> bytes \<Rightarrow> bool" where
  "bytes_less [] [] = False"
| "bytes_less [] (y # ys) = True"
| "bytes_less (x # xs) [] = False"
| "bytes_less (x # xs) (y # ys) =
     ((of_char x :: nat) < of_char y \<or> (x = y \<and> bytes_less xs ys))"

fun insert_member :: "string \<times> bytes \<Rightarrow> (string \<times> bytes) list \<Rightarrow> (string \<times> bytes) list" where
  "insert_member kv [] = [kv]"
| "insert_member kv (kv' # kvs) =
     (if fst kv = fst kv' then kv' # kvs
      else if bytes_less (fst kv) (fst kv') then kv # kv' # kvs
      else kv' # insert_member kv kvs)"

definition sort_members :: "(string \<times> bytes) list \<Rightarrow> (string \<times> bytes) list" where
  "sort_members kvs = foldl (\<lambda>acc kv. insert_member kv acc) [] kvs"

definition hexdigit :: "nat \<Rightarrow> char" where
  "hexdigit n = ''0123456789abcdef'' ! (n mod 16)"

definition json_escape :: "char \<Rightarrow> bytes" where
  "json_escape c =
     (if c = CHR 0x22 \<or> c = CHR 0x5C then [CHR 0x5C, c]
      else if c = CHR 0x0A then [CHR 0x5C, CHR ''n'']
      else if c = CHR 0x0D then [CHR 0x5C, CHR ''r'']
      else if c = CHR 0x09 then [CHR 0x5C, CHR ''t'']
      else if (of_char c :: nat) < 32 \<or> c = CHR ''<'' \<or> c = CHR ''>'' \<or> c = CHR ''&''
      then [CHR 0x5C, CHR ''u'', CHR ''0'', CHR ''0'', hexdigit (of_char c div 16), hexdigit (of_char c)]
      else [c])"

definition json_quote :: "string \<Rightarrow> bytes" where
  "json_quote s = [CHR 0x22] @ concat (map json_escape s) @ [CHR 0x22]"

definition json_object :: "(string \<times> bytes) list \<Rightarrow> bytes" where
  "json_object members =
     ''{'' @ bytes_Join (map (\<lambda>(k, b). json_quote k @ '':'' @ b) members) '','' @ ''}''"

fun json_digits :: "nat \<Rightarrow> nat \<Rightarrow> bytes" where
  "json_digits 0 n = []"
| "json_digits (Suc fuel) n =
     (if n < 10 then [hexdigit n] else json_digits fuel (n div 10) @ [hexdigit (n mod 10)])"

definition json_number :: "int \<Rightarrow> bytes" where
  "json_number n = (if n < 0 then ''-'' else []) @ json_digits (Suc (nat \<bar>n\<bar>)) (nat \<bar>n\<bar>)"

fun json_encode :: "gvalue \<Rightarrow> bytes" where
  "json_encode GNil = ''null''"
| "json_encode (GBool b) = (if b then ''true'' else ''false'')"
| "json_encode (GFloat64 n) = json_number n"
| "json_encode (GString s) = json_quote s"
| "json_encode (GSlice vs) = ''['' @ bytes_Join (map json_encode vs) '','' @ '']''"
| "json_encode (GMap None) = ''null''"
| "json_encode (GMap (Some kvs)) =
     json_object (sort_members (map (\<lambda>(k, v). (k, json_encode v)) kvs))"
| "json_encode (GMapSlice ms) =
     ''['' @ bytes_Join (map (\<lambda>m. case m of
                 None \<Rightarrow> ''null''
               | Some kvs \<Rightarrow> json_object (sort_members (map (\<lambda>(k, v). (k, json_encode v)) kvs))) ms) '',''
      @ '']''"
| "json_encode (GStruct fs) = json_object (map (\<lambda>(k, v). (k, json_encode v)) fs)"
| "json_encode (GPtr v) = json_encode v"
| "json_encode (GNilPtr t) = ''null''"
| "json_encode GChan = []"

fun json_supported :: "gvalue \<Rightarrow> bool" where
  "json_supported (GSlice vs) = list_all json_supported vs"
| "json_supported (GMap None) = True"
| "json_supported (GMap (Some kvs)) = list_all (\<lambda>(k, v). json_supported v) kvs"
| "json_supported (GMapSlice ms) =
     list_all (\<lambda>m. case m of None \<Rightarrow> True | Some kvs \<Rightarrow> list_all (\<lambda>(k, v). json_supported v) kvs) ms"
| "json_supported (GStruct fs) = list_all (\<lambda>(k, v). json_supported v) fs"
| "json_supported (GPtr v) = json_supported v"
| "json_supported GChan = False"
| "json_supported v = True"

definition example_Marshal :: "gvalue \<Rightarrow> error + bytes" where
  "example_Marshal v =
     (if json_supported v then Inr (json_encode v)
      else Inl (libraryError ''json: unsupported type: chan int''))"

text \<open>
  The decoders of \<^verbatim>\<open>encoding/json\<close> on the bodies of the examples: the empty object, the
  error response and the bulk response of section 8 of the specification.  Any other body is
  reported as a syntax error, which leaves the response as it was.
\<close>

definition example_error_body :: bytes where
  \<open>example_error_body = ''{"error":"boom"}''\<close>

definition example_bulk_body :: bytes where
  \<open>example_bulk_body = ''{"errors":true,"items":[{"index":{"status":409,"error":"conflict"}}]}''\<close>

definition example_Unmarshal_Response :: "bytes \<Rightarrow> Response \<Rightarrow> Response option \<times> error option" where
  \<open>example_Unmarshal_Response body r =
     (if body = ''{}'' then (Some r, None)
      else if body = example_error_body then (Some (r\<lparr>RawError := ''"boom"''\<rparr>), None)
      else if body = example_bulk_body
      then (Some (r\<lparr>Errors := True,
                     Items := [[(''index'', \<lparr>Item.Error = ''conflict'', Item.Status = 409\<rparr>)]]\<rparr>), None)
      else (Some r, Some (libraryError ''invalid character'')))\<close>

definition example_Unmarshal_Raw :: "bytes \<Rightarrow> gmap \<Rightarrow> gmap \<times> error option" where
  \<open>example_Unmarshal_Raw body raw =
     (if body = ''{}'' then (Some (case raw of None \<Rightarrow> [] | Some kvs \<Rightarrow> kvs), None)
      else if body = example_error_body then (Some [(''error'', GString ''boom'')], None)
      else if body = example_bulk_body
      then (Some [(''errors'', GBool True),
                  (''items'', GSlice [GMap (Some [(''index'',
                     GMap (Some [(''status'', GFloat64 409), (''error'', GString ''conflict'')]))])])], None)
      else (raw, Some (libraryError ''invalid character'')))\<close>

text \<open>A JSON string literal without escapes decodes to the bytes between its quotes.\<close>

definition example_Unmarshal_string :: "bytes \<Rightarrow> string \<Rightarrow> string \<times> error option" where
  "example_Unmarshal_string raw s =
     (if 2 \<le> length raw \<and> hd raw = CHR 0x22 \<and> last raw = CHR 0x22
         \<and> CHR 0x22 \<notin> set (butlast (tl raw)) \<and> CHR 0x5C \<notin> set (butlast (tl raw))
      then (butlast (tl raw), None)
      else (s, Some (libraryError ''invalid character'')))"

text \<open>
  Modelled from the spec: \<^verbatim>\<open>Request()\<close>, the builder of the HTTP request, is not in
  \<^verbatim>\<open>goes.go\<close>.  By sections 3, 4.1 and 6 of the specification the request carries the
  method of the \<^verbatim>\<open>Request\<close>; its path joins with \<^verbatim>\<open>/\<close> the comma-joined index list, the
  comma-joined type list, the API and the ID, each only if present; its body is the raw
  \<^verbatim>\<open>Body\<close>, the \<^verbatim>\<open>BulkData\<close> or the encoded \<^verbatim>\<open>Query\<close>.  The query string lists the
  extra arguments (without escaping).
\<close>

definition example_query_string :: "(string \<times> string list) list \<Rightarrow> string" where
  "example_query_string args =
     bytes_Join (concat (map (\<lambda>(k, vs). map (\<lambda>v. k @ ''='' @ v) vs) args)) ''&''"

definition example_Request :: "Request \<Rightarrow> error + HTTPRequest" where
  "example_Request r =
     (case (if Body r \<noteq> [] then Inr (Body r)
            else if BulkData r \<noteq> [] then Inr (BulkData r)
            else example_Marshal (Query r)) of
        Inl err \<Rightarrow> Inl err
      | Inr postData \<Rightarrow>
          Inr \<lparr>HTTPMethod = Method r, URL_Scheme = [], URL_Host = [],
               URL_Path = bytes_Join (filter (\<lambda>s. s \<noteq> [])
                 [bytes_Join (IndexList r) '','', bytes_Join (TypeList r) '','', API r, Request.ID r]) ''/'',
               URL_RawQuery = example_query_string (ExtraArgs r),
               HTTPBody = postData\<rparr>)"

definition example_env :: env where
  "example_env = \<lparr>Marshal = example_Marshal, Unmarshal_Response = example_Unmarshal_Response,
     Unmarshal_Raw = example_Unmarshal_Raw, Unmarshal_string = example_Unmarshal_string,
     Request_Request = example_Request\<rparr>"

text \<open>A client of a server that answers every request with the same status and body.\<close>

definition example_client :: "int \<Rightarrow> bytes \<Rightarrow> Client" where
  "example_client status body =
     \<lparr>Host = ''localhost'', Port = ''9200'', IsHTTPS = False,
      Client = (\<lambda>req. Inr \<lparr>StatusCode = status, ReadAll = Inr body\<rparr>)\<rparr>"

section \<open>Alias commands\<close>

lemma modifyAlias_loop_append:
  "modifyAlias_loop action alias indexes actions =
     actions @ map (\<lambda>index. Some [(action,
       GMap (Some [(''index'', GString index), (''alias'', GString alias)]))]) indexes"
  by (induction indexes arbitrary: actions) simp_all

text \<open>
  Claim C10.  \<^verbatim>\<open>AddAlias\<close> and \<^verbatim>\<open>RemoveAlias\<close> hand \<^verbatim>\<open>Do\<close> the request that
  \<^verbatim>\<open>modifyAlias\<close> builds with the action \<^verbatim>\<open>add\<close> or \<^verbatim>\<open>remove\<close>.  The query of that
  request is a map whose key \<^verbatim>\<open>actions\<close> holds a slice of \<open>n + 1\<close> maps for \<open>n\<close> indexes: a
  leading nil map (the slice is made with length 1), then one entry per index, in order, from
  the action to the index and the alias.
\<close>

theorem alias_actions:
  "AddAlias E c alias indexes net = Do E c (modifyAlias_Request ''add'' alias indexes) net
   \<and> RemoveAlias E c alias indexes net = Do E c (modifyAlias_Request ''remove'' alias indexes) net
   \<and> (\<forall>action. \<exists>actions.
         Query (modifyAlias_Request action alias indexes) = GMap (Some [(''actions'', GMapSlice actions)])
         \<and> length actions = length indexes + 1
         \<and> actions = None # map (\<lambda>index. Some [(action,
               GMap (Some [(''index'', GString index), (''alias'', GString alias)]))]) indexes)"
  by (simp add: AddAlias_def RemoveAlias_def modifyAlias_def modifyAlias_Request_def
      modifyAlias_loop_append Request0_def)

section \<open>The response pipeline\<close>

text \<open>
  Claim C5.  When the request is built, the HTTP client answers and the body is read, a status
  code \<open>s\<close> with \<open>201 < s < 400\<close> makes \<^verbatim>\<open>Do\<close> return the response that carries only that
  status (every other field zero) with the error whose message is the body.  No decoder is
  asked: the result is the same whatever the three decoders are.
\<close>

theorem status_band_is_error:
  assumes "Request_Request E r = Inr req0"
    and "req = req0\<lparr>URL_Scheme := (if IsHTTPS c then ''https'' else ''http''),
                     URL_Host := Host c @ '':'' @ Port c\<rparr>"
    and "Client c req = Inr resp"
    and "ReadAll resp = Inr body"
    and "201 < StatusCode resp" and "StatusCode resp < 400"
  shows "Do E c r net =
        (Inr (Some (Response0\<lparr>Status := word_of_int (StatusCode resp)\<rparr>), Some (errorString body)),
         net @ [req])
    \<and> (\<forall>u1 u2 u3.
      Do (E\<lparr>Unmarshal_Response := u1, Unmarshal_Raw := u2, Unmarshal_string := u3\<rparr>) c r net =
      Do E c r net)"
  using assms by (simp add: Do_def doRequest_def)

text \<open>A server that answers 302 with the body \<^verbatim>\<open>moved\<close>.\<close>

theorem status_band_is_error_witness:
  "Do example_env (example_client 302 ''moved'') (Request0\<lparr>Method := ''GET''\<rparr>) [] =
     (Inr (Some (Response0\<lparr>Status := 302\<rparr>), Some (errorString ''moved'')),
      [\<lparr>HTTPMethod = ''GET'', URL_Scheme = ''http'', URL_Host = ''localhost:9200'', URL_Path = [],
        URL_RawQuery = [], HTTPBody = ''null''\<rparr>])"
proof -
  let ?c = "example_client 302 ''moved''"
  let ?resp = "\<lparr>StatusCode = 302, ReadAll = Inr ''moved''\<rparr>"
  have 1: "Request_Request example_env (Request0\<lparr>Method := ''GET''\<rparr>) =
      Inr \<lparr>HTTPMethod = ''GET'', URL_Scheme = [], URL_Host = [], URL_Path = [],
        URL_RawQuery = [], HTTPBody = ''null''\<rparr>"
    by (simp add: example_env_def example_Request_def Request0_def example_Marshal_def
        example_query_string_def)
  have 2: "Client ?c req = Inr ?resp" for req
    by (simp add: example_client_def)
  have 3: "ReadAll ?resp = Inr ''moved''" "201 < StatusCode ?resp" "StatusCode ?resp < 400"
    by simp_all
  from status_band_is_error [OF 1 refl 2 3, of "[]"]
  show ?thesis by (simp add: example_client_def)
qed

text \<open>
  Claim C3.  Take a response whose status is outside the band of C5, to a request that is not a
  \<^verbatim>\<open>HEAD\<close>, and whose body both decodings accept, the first leaving in \<^verbatim>\<open>Status\<close> the
  HTTP status that \<^verbatim>\<open>Do\<close> stored there.  The \<^verbatim>\<open>Error\<close> of the response that \<^verbatim>\<open>Do\<close>
  returns is the decoded string literal when the first byte of \<^verbatim>\<open>RawError\<close> is a double
  quote, and the bytes of \<^verbatim>\<open>RawError\<close> as a string otherwise.  When that string is not
  empty, \<^verbatim>\<open>Do\<close> returns a \<^verbatim>\<open>SearchError\<close> made from it and from the HTTP status,
  together with the decoded response (its \<^verbatim>\<open>Raw\<close> filled, its \<^verbatim>\<open>Status\<close> the HTTP
  status); otherwise it returns the response and no error.
\<close>

theorem error_unified:
  assumes "Request_Request E r = Inr req0"
    and "req = req0\<lparr>URL_Scheme := (if IsHTTPS c then ''https'' else ''http''),
                     URL_Host := Host c @ '':'' @ Port c\<rparr>"
    and "Client c req = Inr resp"
    and "ReadAll resp = Inr body"
    and "\<not> (201 < StatusCode resp \<and> StatusCode resp < 400)"
    and "HTTPMethod req0 \<noteq> ''HEAD''"
    and "Unmarshal_Response E body (Response0\<lparr>Status := word_of_int (StatusCode resp)\<rparr>) = (Some decoded, None)"
    and "Response.Status decoded = word_of_int (StatusCode resp)"
    and "Unmarshal_Raw E body (Raw decoded) = (raw, None)"
    and "msg = (if RawError decoded \<noteq> [] \<and> hd (RawError decoded) = CHR 0x22
                then fst (Unmarshal_string E (RawError decoded) (Response.Error decoded))
                else RawError decoded)"
    and "esResp = decoded\<lparr>Raw := raw, Error := msg, RawError := []\<rparr>"
  shows "Do E c r net =
     (Inr (Some esResp,
           if msg \<noteq> []
           then Some (SearchErr \<lparr>Msg = msg, StatusCode = word_of_int (StatusCode resp)\<rparr>)
           else None),
      net @ [req])
    \<and> Response.Status esResp = word_of_int (StatusCode resp)"
  using assms
  by (cases "RawError decoded") (simp_all add: Do_def doRequest_def Do_decode_def Do_unify_def Let_def)

text \<open>
  The example of the specification: the body \<^verbatim>\<open>{"error":"boom"}\<close> with status 400 gives
  the \<^verbatim>\<open>Error\<close> \<^verbatim>\<open>boom\<close> and a \<^verbatim>\<open>SearchError\<close> with status code 400.
\<close>

theorem error_unified_witness:
  "Do example_env (example_client 400 example_error_body) (Request0\<lparr>Method := ''GET''\<rparr>) [] =
     (Inr (Some \<lparr>Status = 400, Raw = Some [(''error'', GString ''boom'')], Error = ''boom'',
                 RawError = [], Errors = False, Items = []\<rparr>,
           Some (SearchErr \<lparr>Msg = ''boom'', StatusCode = 400\<rparr>)),
      [\<lparr>HTTPMethod = ''GET'', URL_Scheme = ''http'', URL_Host = ''localhost:9200'', URL_Path = [],
        URL_RawQuery = [], HTTPBody = ''null''\<rparr>])"
proof -
  let ?c = "example_client 400 example_error_body"
  let ?resp = "\<lparr>StatusCode = 400, ReadAll = Inr example_error_body\<rparr>"
  let ?req0 = "\<lparr>HTTPMethod = ''GET'', URL_Scheme = [], URL_Host = [], URL_Path = [],
        URL_RawQuery = [], HTTPBody = ''null''\<rparr>"
  let ?decoded = "Response0\<lparr>Status := 400, RawError := [CHR 0x22] @ ''boom'' @ [CHR 0x22]\<rparr>"
  have 1: "Request_Request example_env (Request0\<lparr>Method := ''GET''\<rparr>) = Inr ?req0"
    by (simp add: example_env_def example_Request_def Request0_def example_Marshal_def
        example_query_string_def)
  have 2: "Client ?c req = Inr ?resp" for req
    by (simp add: example_client_def)
  have 3: "ReadAll ?resp = Inr example_error_body"
    "\<not> (201 < StatusCode ?resp \<and> StatusCode ?resp < 400)" "HTTPMethod ?req0 \<noteq> ''HEAD''"
    by simp_all
  have 4: "Unmarshal_Response example_env example_error_body
      (Response0\<lparr>Status := word_of_int (StatusCode ?resp)\<rparr>) = (Some ?decoded, None)"
    by (simp add: example_env_def example_Unmarshal_Response_def example_error_body_def)
  have 5: "Response.Status ?decoded = word_of_int (StatusCode ?resp)"
    by simp
  have 6: "Unmarshal_Raw example_env example_error_body (Raw ?decoded) =
      (Some [(''error'', GString ''boom'')], None)"
    by (simp add: example_env_def example_Unmarshal_Raw_def example_error_body_def)
  from error_unified [OF 1 refl 2 3 4 5 6 refl refl, of "[]"]
  show ?thesis
    by (simp add: example_client_def example_env_def example_Unmarshal_string_def Response0_def)
qed

text \<open>
  Claim C7.  \<^verbatim>\<open>IndicesExist\<close> builds a request with the method \<^verbatim>\<open>HEAD\<close>.  When the HTTP
  request built from it carries that method, and the server answers 200 or 404, the result is
  \<open>(status = 200, nil)\<close>: true for 200, false for 404, no error; one request has gone out,
  and no decoder is asked (the result is the same whatever the three decoders are).
\<close>

theorem indices_exist_head:
  assumes "Request_Request E (IndicesExist_Request indexes) = Inr req0"
    and "HTTPMethod req0 = Method (IndicesExist_Request indexes)"
    and "req = req0\<lparr>URL_Scheme := (if IsHTTPS c then ''https'' else ''http''),
                     URL_Host := Host c @ '':'' @ Port c\<rparr>"
    and "Client c req = Inr resp"
    and "ReadAll resp = Inr body"
    and "StatusCode resp = 200 \<or> StatusCode resp = 404"
  shows "HTTPMethod req = ''HEAD''
    \<and> IndicesExist E c indexes net = (Inr (StatusCode resp = 200, None), net @ [req])
    \<and> (\<forall>u1 u2 u3.
         IndicesExist (E\<lparr>Unmarshal_Response := u1, Unmarshal_Raw := u2, Unmarshal_string := u3\<rparr>)
           c indexes net = IndicesExist E c indexes net)"
  using assms
  by (auto simp add: IndicesExist_def IndicesExist_Request_def Do_def doRequest_def Do_decode_def
      Do_unify_def Request0_def Response0_def)

text \<open>\<^verbatim>\<open>IndicesExist(["myidx"])\<close> against a server that answers 200, and one that answers 404.\<close>

theorem indices_exist_head_witness:
  "IndicesExist example_env (example_client 200 []) [''myidx''] [] =
     (Inr (True, None),
      [\<lparr>HTTPMethod = ''HEAD'', URL_Scheme = ''http'', URL_Host = ''localhost:9200'',
        URL_Path = ''myidx'', URL_RawQuery = [], HTTPBody = ''null''\<rparr>])
   \<and> IndicesExist example_env (example_client 404 []) [''myidx''] [] =
     (Inr (False, None),
      [\<lparr>HTTPMethod = ''HEAD'', URL_Scheme = ''http'', URL_Host = ''localhost:9200'',
        URL_Path = ''myidx'', URL_RawQuery = [], HTTPBody = ''null''\<rparr>])"
proof -
  let ?req0 = "\<lparr>HTTPMethod = ''HEAD'', URL_Scheme = [], URL_Host = [],
        URL_Path = ''myidx'', URL_RawQuery = [], HTTPBody = ''null''\<rparr>"
  have 1: "Request_Request example_env (IndicesExist_Request [''myidx'']) = Inr ?req0"
    by (simp add: example_env_def example_Request_def IndicesExist_Request_def Request0_def
        example_Marshal_def example_query_string_def)
  have 2: "HTTPMethod ?req0 = Method (IndicesExist_Request [''myidx''])"
    by (simp add: IndicesExist_Request_def)
  have 3: "Client (example_client s []) req = Inr \<lparr>StatusCode = s, ReadAll = Inr []\<rparr>" for s req
    by (simp add: example_client_def)
  have 4: "ReadAll \<lparr>StatusCode = s, ReadAll = Inr []\<rparr> = Inr []" for s :: int
    by simp
  have a: "StatusCode \<lparr>StatusCode = 200, ReadAll = Inr []\<rparr> = 200
      \<or> StatusCode \<lparr>StatusCode = 200, ReadAll = Inr []\<rparr> = 404"
    by simp
  have b: "StatusCode \<lparr>StatusCode = 404, ReadAll = Inr []\<rparr> = 200
      \<or> StatusCode \<lparr>StatusCode = 404, ReadAll = Inr []\<rparr> = 404"
    by simp
  from indices_exist_head [OF 1 2 refl 3 4 a, of "[]"] indices_exist_head [OF 1 2 refl 3 4 b, of "[]"]
  show ?thesis by (simp add: example_client_def)
qed

section \<open>The walk over the bulk items\<close>

lemma find_first:
  "xs = pre @ i # post \<Longrightarrow> \<forall>j \<in> set pre. \<not> P j \<Longrightarrow> P i \<Longrightarrow> List.find P xs = Some i"
  by (induction pre arbitrary: xs) auto

lemma find_none: "\<forall>j \<in> set xs. \<not> P j \<Longrightarrow> List.find P xs = None"
  by (induction xs) auto

text \<open>
  Claim C4.  Let the bulk body be built and \<^verbatim>\<open>Do\<close> return a response without an error
  (whatever the HTTP status was), with the flag \<^verbatim>\<open>Errors\<close> set.  Then \<^verbatim>\<open>BulkSend\<close> returns
  that response with a \<^verbatim>\<open>SearchError\<close>: the message and the status of the first item, in
  the order of the walk, whose error is not empty; and when no item has an error, the message
  \<^verbatim>\<open>Unknown error while bulk indexing\<close> with status 0.
\<close>

theorem bulk_item_error:
  assumes "BulkSend_encode E documents = Inr data"
    and "Do E c (Request0\<lparr>Method := ''POST'', API := ''_bulk'', BulkData := data\<rparr>) net =
           (Inr (Some resp, None), net')"
    and "Errors resp"
  shows "(\<forall>pre i post.
            map snd (concat (Items resp)) = pre @ i # post
            \<and> (\<forall>j \<in> set pre. Item.Error j = []) \<and> Item.Error i \<noteq> [] \<longrightarrow>
            BulkSend E c documents net =
              (Inr (Some resp, Some (SearchErr \<lparr>Msg = Item.Error i, StatusCode = Item.Status i\<rparr>)), net'))
       \<and> ((\<forall>j \<in> set (map snd (concat (Items resp))). Item.Error j = []) \<longrightarrow>
            BulkSend E c documents net =
              (Inr (Some resp,
                 Some (SearchErr \<lparr>Msg = ''Unknown error while bulk indexing'', StatusCode = 0\<rparr>)), net'))"
proof (intro conjI allI impI)
  fix pre i post
  assume "map snd (concat (Items resp)) = pre @ i # post
            \<and> (\<forall>j \<in> set pre. Item.Error j = []) \<and> Item.Error i \<noteq> []"
  then have "BulkSend_item_error (Items resp) = Some i"
    unfolding BulkSend_item_error_def by (intro find_first [where pre = pre and post = post]) auto
  with assms show "BulkSend E c documents net =
              (Inr (Some resp, Some (SearchErr \<lparr>Msg = Item.Error i, StatusCode = Item.Status i\<rparr>)), net')"
    by (simp add: BulkSend_def)
next
  assume "\<forall>j \<in> set (map snd (concat (Items resp))). Item.Error j = []"
  then have "BulkSend_item_error (Items resp) = None"
    unfolding BulkSend_item_error_def by (intro find_none) auto
  with assms show "BulkSend E c documents net =
              (Inr (Some resp,
                 Some (SearchErr \<lparr>Msg = ''Unknown error while bulk indexing'', StatusCode = 0\<rparr>)), net')"
    by (simp add: BulkSend_def)
qed

text \<open>
  The example of the specification: the server answers 200 with the body
  \<^verbatim>\<open>{"errors":true,"items":[{"index":{"status":409,"error":"conflict"}}]}\<close>.
\<close>

theorem bulk_item_error_witness:
  \<open>BulkSend example_env (example_client 200 example_bulk_body)
      [\<lparr>Index = GString ''i'', Type = ''t'', ID = GString ''1'', BulkCommand = ''index'',
        Fields = GMap (Some [(''a'', GString ''b'')])\<rparr>] [] =
     (Inr (Some \<lparr>Status = 200,
             Raw = Some [(''errors'', GBool True),
                  (''items'', GSlice [GMap (Some [(''index'',
                     GMap (Some [(''status'', GFloat64 409), (''error'', GString ''conflict'')]))])])],
             Error = [], RawError = [], Errors = True,
             Items = [[(''index'', \<lparr>Item.Error = ''conflict'', Item.Status = 409\<rparr>)]]\<rparr>,
           Some (SearchErr \<lparr>Msg = ''conflict'', StatusCode = 409\<rparr>)),
      [\<lparr>HTTPMethod = ''POST'', URL_Scheme = ''http'', URL_Host = ''localhost:9200'',
        URL_Path = ''_bulk'', URL_RawQuery = [],
        HTTPBody = ''{"index":{"_id":"1","_index":"i","_type":"t"}}'' @ [CHR 0x0A]
                   @ ''{"a":"b"}'' @ [CHR 0x0A]\<rparr>])\<close>
proof -
  let ?docs = "[\<lparr>Index = GString ''i'', Type = ''t'', ID = GString ''1'', BulkCommand = ''index'',
        Fields = GMap (Some [(''a'', GString ''b'')])\<rparr>]"
  let ?resp = "\<lparr>Status = 200,
             Raw = Some [(''errors'', GBool True),
                  (''items'', GSlice [GMap (Some [(''index'',
                     GMap (Some [(''status'', GFloat64 409), (''error'', GString ''conflict'')]))])])],
             Error = [], RawError = [], Errors = True,
             Items = [[(''index'', \<lparr>Item.Error = ''conflict'', Item.Status = 409\<rparr>)]]\<rparr>"
  let ?i = "\<lparr>Item.Error = ''conflict'', Item.Status = 409\<rparr>"
  have 1: \<open>BulkSend_encode example_env ?docs =
      Inr (''{"index":{"_id":"1","_index":"i","_type":"t"}}'' @ [CHR 0x0A] @ ''{"a":"b"}'' @ [CHR 0x0A])\<close>
    by code_simp
  have 2: \<open>Do example_env (example_client 200 example_bulk_body)
      (Request0\<lparr>Method := ''POST'', API := ''_bulk'',
         BulkData := ''{"index":{"_id":"1","_index":"i","_type":"t"}}'' @ [CHR 0x0A] @ ''{"a":"b"}'' @ [CHR 0x0A]\<rparr>) [] =
      (Inr (Some ?resp, None),
       [\<lparr>HTTPMethod = ''POST'', URL_Scheme = ''http'', URL_Host = ''localhost:9200'',
        URL_Path = ''_bulk'', URL_RawQuery = [],
        HTTPBody = ''{"index":{"_id":"1","_index":"i","_type":"t"}}'' @ [CHR 0x0A]
                   @ ''{"a":"b"}'' @ [CHR 0x0A]\<rparr>])\<close>
    by code_simp
  have 3: "Errors ?resp" by simp
  have 4: "map snd (concat (Items ?resp)) = [] @ ?i # []
      \<and> (\<forall>j \<in> set []. Item.Error j = []) \<and> Item.Error ?i \<noteq> []"
    by simp
  from bulk_item_error [OF 1 2 3, THEN conjunct1, rule_format, OF 4]
  show ?thesis by simp
qed

section \<open>Aggregation and bucket views\<close>

lemma Buckets_loop_maps: "Buckets_loop (map GMap ms) result = Inr (result @ ms)"
  by (induction ms arbitrary: result) simp_all

lemma Buckets_loop_panic:
  "\<forall>ms. bs \<noteq> map GMap ms \<Longrightarrow> Buckets_loop bs result = Inl TypeAssertion"
proof (induction bs arbitrary: result)
  case Nil
  then show ?case by simp
next
  case (Cons b bs)
  show ?case
  proof (cases b)
    case (GMap m)
    have "\<forall>ms. bs \<noteq> map GMap ms"
    proof (intro allI notI)
      fix ms assume "bs = map GMap ms"
      then have "b # bs = map GMap (m # ms)" using GMap by simp
      with Cons.prems [rule_format, of "m # ms"] show False by simp
    qed
    with Cons.IH GMap show ?thesis by simp
  qed simp_all
qed

text \<open>
  Claim C8, as amended.  \<^verbatim>\<open>Buckets\<close> returns the empty sequence when the key
  \<^verbatim>\<open>buckets\<close> is absent, and the maps found at that key, in order, when the value there is a
  sequence of maps; on a value of any other shape it panics on its type assertion.
  \<^verbatim>\<open>Aggregation(name)\<close> returns the empty map when \<^verbatim>\<open>name\<close> is absent and the map at
  \<^verbatim>\<open>name\<close> when the value there is a map; on another value it panics.
\<close>

theorem bucket_views:
  "(lookup a ''buckets'' = None \<longrightarrow> Buckets a = Inr [])
   \<and> (\<forall>ms. lookup a ''buckets'' = Some (GSlice (map GMap ms)) \<longrightarrow> Buckets a = Inr ms)
   \<and> (\<forall>v. lookup a ''buckets'' = Some v \<and> (\<forall>ms. v \<noteq> GSlice (map GMap ms)) \<longrightarrow>
          Buckets a = Inl TypeAssertion)
   \<and> (lookup b name = None \<longrightarrow> Aggregation b name = Inr (Some []))
   \<and> (\<forall>m. lookup b name = Some (GMap m) \<longrightarrow> Aggregation b name = Inr m)
   \<and> (\<forall>v. lookup b name = Some v \<and> (\<forall>m. v \<noteq> GMap m) \<longrightarrow> Aggregation b name = Inl TypeAssertion)"
proof (intro conjI allI impI)
  fix v assume v: "lookup a ''buckets'' = Some v \<and> (\<forall>ms. v \<noteq> GSlice (map GMap ms))"
  show "Buckets a = Inl TypeAssertion"
  proof (cases v)
    case (GSlice bs)
    with v have "\<forall>ms. bs \<noteq> map GMap ms" by simp
    then have "Buckets_loop bs [] = Inl TypeAssertion" by (rule Buckets_loop_panic)
    with v GSlice show ?thesis by (simp add: Buckets_def)
  qed (use v in \<open>simp_all add: Buckets_def\<close>)
next
  fix v assume v: "lookup b name = Some v \<and> (\<forall>m. v \<noteq> GMap m)"
  then show "Aggregation b name = Inl TypeAssertion"
    by (cases v) (simp_all add: Aggregation_def)
qed (simp_all add: Buckets_def Aggregation_def Buckets_loop_maps)

text \<open>
  Claim C8 as stated fails: a value of the wrong shape at \<^verbatim>\<open>buckets\<close> (a string, a sequence
  with a number in it, a JSON null) does not give the empty sequence; \<^verbatim>\<open>Buckets\<close> panics.
\<close>

theorem bucket_views_counterexample:
  "Buckets (Some [(''buckets'', GString ''none'')]) = Inl TypeAssertion
   \<and> Buckets (Some [(''buckets'', GSlice [GFloat64 1])]) = Inl TypeAssertion
   \<and> Buckets (Some [(''buckets'', GNil)]) = Inl TypeAssertion"
  by (simp add: Buckets_def lookup_def)

text \<open>The six cases of the amended claim, on concrete aggregations and buckets.\<close>

theorem bucket_views_witness:
  "Buckets (Some [(''doc_count'', GFloat64 3)]) = Inr []
   \<and> Buckets (Some [(''buckets'', GSlice [GMap (Some [(''key'', GString ''a'')]), GMap (Some [(''key'', GString ''b'')])])])
       = Inr [Some [(''key'', GString ''a'')], Some [(''key'', GString ''b'')]]
   \<and> Buckets (Some [(''buckets'', GString ''none'')]) = Inl TypeAssertion
   \<and> Aggregation (Some [(''key'', GString ''a'')]) ''sub'' = Inr (Some [])
   \<and> Aggregation (Some [(''sub'', GMap (Some [(''value'', GFloat64 1)]))]) ''sub'' = Inr (Some [(''value'', GFloat64 1)])
   \<and> Aggregation (Some [(''sub'', GFloat64 1)]) ''sub'' = Inl TypeAssertion"
proof -
  let ?a1 = "Some [(''doc_count'', GFloat64 3)]"
  let ?ms = "[Some [(''key'', GString ''a'')], Some [(''key'', GString ''b'')]]"
  let ?a2 = "Some [(''buckets'', GSlice (map GMap ?ms))]"
  let ?a3 = "Some [(''buckets'', GString ''none'')]"
  let ?b1 = "Some [(''key'', GString ''a'')]"
  let ?b2 = "Some [(''sub'', GMap (Some [(''value'', GFloat64 1)]))]"
  let ?b3 = "Some [(''sub'', GFloat64 1)]"
  have 1: "lookup ?a1 ''buckets'' = None" by (simp add: lookup_def)
  have 2: "lookup ?a2 ''buckets'' = Some (GSlice (map GMap ?ms))" by (simp add: lookup_def)
  have 3: "lookup ?a3 ''buckets'' = Some (GString ''none'') \<and> (\<forall>ms. GString ''none'' \<noteq> GSlice (map GMap ms))"
    by (simp add: lookup_def)
  have 4: "lookup ?b1 ''sub'' = None" by (simp add: lookup_def)
  have 5: "lookup ?b2 ''sub'' = Some (GMap (Some [(''value'', GFloat64 1)]))" by (simp add: lookup_def)
  have 6: "lookup ?b3 ''sub'' = Some (GFloat64 1) \<and> (\<forall>m. GFloat64 1 \<noteq> GMap m)" by (simp add: lookup_def)
  note t1 = bucket_views [of ?a1 ?b1 "''sub''"]
  note t2 = bucket_views [of ?a2 ?b2 "''sub''"]
  note t3 = bucket_views [of ?a3 ?b3 "''sub''"]
  from t1 1 have r1: "Buckets ?a1 = Inr []" by blast
  from t2 2 have r2: "Buckets ?a2 = Inr ?ms" by blast
  from t3 3 have r3: "Buckets ?a3 = Inl TypeAssertion" by blast
  from t1 4 have r4: "Aggregation ?b1 ''sub'' = Inr (Some [])" by blast
  from t2 5 have r5: "Aggregation ?b2 ''sub'' = Inr (Some [(''value'', GFloat64 1)])" by blast
  from t3 6 have r6: "Aggregation ?b3 ''sub'' = Inl TypeAssertion" by blast
  from r1 r2 r3 r4 r5 r6 show ?thesis by simp
qed

section \<open>Update and Delete\<close>

text \<open>
  Claim C9, as amended.  \<^verbatim>\<open>Delete\<close> panics on a type assertion, before any request goes
  out, when \<^verbatim>\<open>Index\<close> or \<^verbatim>\<open>ID\<close> is absent or not a string.  \<^verbatim>\<open>Update\<close> does so when
  \<^verbatim>\<open>Index\<close> is absent or not a string, or \<^verbatim>\<open>ID\<close> is there and is not a string.  With an
  absent \<^verbatim>\<open>ID\<close> and a string \<^verbatim>\<open>Index\<close>, \<^verbatim>\<open>Update\<close> does not fail: it runs the request
  without an ID.  With both strings, each runs its request.
\<close>

theorem update_delete_assertions:
  "((\<forall>s. Index d \<noteq> GString s) \<or> (\<forall>s. Document.ID d \<noteq> GString s) \<longrightarrow>
       Delete E c d extraArgs net = (Inl TypeAssertion, net))
   \<and> ((\<forall>s. Index d \<noteq> GString s) \<or> (Document.ID d \<noteq> GNil \<and> (\<forall>s. Document.ID d \<noteq> GString s)) \<longrightarrow>
       Update E c d query extraArgs net = (Inl TypeAssertion, net))
   \<and> (\<forall>index. Index d = GString index \<and> Document.ID d = GNil \<longrightarrow>
       Update E c d query extraArgs net =
         Do E c \<lparr>Query = query, IndexList = [index], TypeList = [Type d], Method = ''POST'',
                 API = ''_update'', ID = [], ExtraArgs = extraArgs, Body = [], BulkData = []\<rparr> net)
   \<and> (\<forall>index docid. Index d = GString index \<and> Document.ID d = GString docid \<longrightarrow>
       Update E c d query extraArgs net =
         Do E c \<lparr>Query = query, IndexList = [index], TypeList = [Type d], Method = ''POST'',
                 API = ''_update'', ID = docid, ExtraArgs = extraArgs, Body = [], BulkData = []\<rparr> net
       \<and> Delete E c d extraArgs net =
         Do E c \<lparr>Query = GNil, IndexList = [index], TypeList = [Type d], Method = ''DELETE'',
                 API = [], ID = docid, ExtraArgs = extraArgs, Body = [], BulkData = []\<rparr> net)"
  by (cases "Index d"; cases "Document.ID d") (simp_all add: Delete_def Update_def Request0_def)

text \<open>
  Claim C9 as stated fails for \<^verbatim>\<open>Update\<close>: with an absent \<^verbatim>\<open>ID\<close> the request goes out, to
  the path \<^verbatim>\<open>i/t/_update\<close>, and the call returns the response and no error.
\<close>

theorem update_delete_assertions_counterexample:
  "Update example_env (example_client 200 ''{}'')
     \<lparr>Index = GString ''i'', Type = ''t'', ID = GNil, BulkCommand = [], Fields = GNil\<rparr>
     (GMap (Some [(''doc'', GMap (Some [(''a'', GString ''b'')]))])) [] [] =
   (Inr (Some \<lparr>Status = 200, Raw = Some [], Error = [], RawError = [], Errors = False, Items = []\<rparr>,
         None),
    [\<lparr>HTTPMethod = ''POST'', URL_Scheme = ''http'', URL_Host = ''localhost:9200'',
      URL_Path = ''i/t/_update'', URL_RawQuery = [],
      HTTPBody = [CHR ''{'', CHR 0x22, CHR ''d'', CHR ''o'', CHR ''c'', CHR 0x22, CHR '':'', CHR ''{'',
        CHR 0x22, CHR ''a'', CHR 0x22, CHR '':'', CHR 0x22, CHR ''b'', CHR 0x22, CHR ''}'', CHR ''}'']\<rparr>])"
  by code_simp

text \<open>The cases of the amended claim on concrete documents.\<close>

theorem update_delete_assertions_witness:
  "Delete example_env (example_client 200 ''{}'')
     \<lparr>Index = GString ''i'', Type = ''t'', ID = GNil, BulkCommand = [], Fields = GNil\<rparr> [] []
     = (Inl TypeAssertion, [])
   \<and> Delete example_env (example_client 200 ''{}'')
     \<lparr>Index = GNil, Type = ''t'', ID = GString ''1'', BulkCommand = [], Fields = GNil\<rparr> [] []
     = (Inl TypeAssertion, [])
   \<and> Update example_env (example_client 200 ''{}'')
     \<lparr>Index = GString ''i'', Type = ''t'', ID = GFloat64 1, BulkCommand = [], Fields = GNil\<rparr> GNil [] []
     = (Inl TypeAssertion, [])
   \<and> Update example_env (example_client 200 ''{}'')
     \<lparr>Index = GString ''i'', Type = ''t'', ID = GNil, BulkCommand = [], Fields = GNil\<rparr> GNil [] []
     = Do example_env (example_client 200 ''{}'')
         \<lparr>Query = GNil, IndexList = [''i''], TypeList = [''t''], Method = ''POST'',
           API = ''_update'', ID = [], ExtraArgs = [], Body = [], BulkData = []\<rparr> []
   \<and> Delete example_env (example_client 200 ''{}'')
     \<lparr>Index = GString ''i'', Type = ''t'', ID = GString ''1'', BulkCommand = [], Fields = GNil\<rparr> [] []
     = Do example_env (example_client 200 ''{}'')
         \<lparr>Query = GNil, IndexList = [''i''], TypeList = [''t''], Method = ''DELETE'',
           API = [], ID = ''1'', ExtraArgs = [], Body = [], BulkData = []\<rparr> []"
proof -
  let ?E = example_env and ?c = "example_client 200 ''{}''"
  let ?d1 = "\<lparr>Index = GString ''i'', Type = ''t'', ID = GNil, BulkCommand = [], Fields = GNil\<rparr>"
  let ?d2 = "\<lparr>Index = GNil, Type = ''t'', ID = GString ''1'', BulkCommand = [], Fields = GNil\<rparr>"
  let ?d3 = "\<lparr>Index = GString ''i'', Type = ''t'', ID = GFloat64 1, BulkCommand = [], Fields = GNil\<rparr>"
  let ?d4 = "\<lparr>Index = GString ''i'', Type = ''t'', ID = GString ''1'', BulkCommand = [], Fields = GNil\<rparr>"
  have h1: "(\<forall>s. Index ?d1 \<noteq> GString s) \<or> (\<forall>s. Document.ID ?d1 \<noteq> GString s)" by simp
  have h2: "(\<forall>s. Index ?d2 \<noteq> GString s) \<or> (\<forall>s. Document.ID ?d2 \<noteq> GString s)" by simp
  have h3: "(\<forall>s. Index ?d3 \<noteq> GString s)
      \<or> (Document.ID ?d3 \<noteq> GNil \<and> (\<forall>s. Document.ID ?d3 \<noteq> GString s))" by simp
  have h4: "Index ?d1 = GString ''i'' \<and> Document.ID ?d1 = GNil" by simp
  have h5: "Index ?d4 = GString ''i'' \<and> Document.ID ?d4 = GString ''1''" by simp
  note t1 = update_delete_assertions [of ?d1 ?E ?c "[]" "[]" GNil]
  note t2 = update_delete_assertions [of ?d2 ?E ?c "[]" "[]" GNil]
  note t3 = update_delete_assertions [of ?d3 ?E ?c "[]" "[]" GNil]
  note t4 = update_delete_assertions [of ?d4 ?E ?c "[]" "[]" GNil]
  from t1 h1 have r1: "Delete ?E ?c ?d1 [] [] = (Inl TypeAssertion, [])" by blast
  from t2 h2 have r2: "Delete ?E ?c ?d2 [] [] = (Inl TypeAssertion, [])" by blast
  from t3 h3 have r3: "Update ?E ?c ?d3 GNil [] [] = (Inl TypeAssertion, [])" by blast
  from t1 h4 have r4: "Update ?E ?c ?d1 GNil [] [] = Do ?E ?c
         \<lparr>Query = GNil, IndexList = [''i''], TypeList = [Type ?d1], Method = ''POST'',
           API = ''_update'', ID = [], ExtraArgs = [], Body = [], BulkData = []\<rparr> []" by blast
  from t4 h5 have r5: "Delete ?E ?c ?d4 [] [] = Do ?E ?c
         \<lparr>Query = GNil, IndexList = [''i''], TypeList = [Type ?d4], Method = ''DELETE'',
           API = [], ID = ''1'', ExtraArgs = [], Body = [], BulkData = []\<rparr> []" by blast
  from r1 r2 r3 r4 r5 show ?thesis by simp
qed

section \<open>The bulk encoding\<close>

text \<open>
  What \<open>BulkSend_Fields\<close> computes is the specification's reading of \<^verbatim>\<open>Fields\<close>; the loop
  fills \<^verbatim>\<open>bulkData\<close> from the left with the lines of \<open>bulk_lines\<close> and never leaves the
  array, and the slots it does not reach stay empty.
\<close>

lemma BulkSend_Fields_eq:
  "BulkSend_Fields f = (if Fields_malformed f then Inl Fields_error else Inr (Fields_nonempty f))"
proof (cases f)
  case (GPtr v)
  then show ?thesis
    by (cases v) (simp_all add: BulkSend_Fields_def Fields_error_def)
next
  case (GNilPtr t)
  then show ?thesis
    by (cases t) (simp_all add: BulkSend_Fields_def Fields_error_def)
qed (simp_all add: BulkSend_Fields_def Fields_error_def)

lemma update_first_free:
  "0 < m \<Longrightarrow> (xs @ replicate m [])[length xs := a] = (xs @ [a]) @ replicate (m - 1) []"
  by (cases m) (simp_all add: list_update_append)

lemma update_two_free:
  "1 < m \<Longrightarrow> (xs @ replicate m [])[length xs := a, length xs + 1 := s] = (xs @ [a, s]) @ replicate (m - 2) []"
proof -
  assume "1 < m"
  then obtain k where m: "m = Suc (Suc k)" by (cases m; cases "m - 1") auto
  show ?thesis by (simp add: m list_update_append)
qed

lemma bulk_lines_length: "bulk_lines E docs = Inr ls \<Longrightarrow> length ls \<le> 2 * length docs"
proof (induction docs arbitrary: ls)
  case Nil
  then show ?case by simp
next
  case (Cons d ds)
  then show ?case
    by (fastforce simp add: Document_lines_def split: sum.splits if_splits)
qed

lemma BulkSend_loop_lines:
  "2 * length docs < m \<Longrightarrow>
   BulkSend_loop E docs (xs @ replicate m []) (length xs) =
     (case bulk_lines E docs of
        Inl err \<Rightarrow> Inl (Inr (Some Response0, Some err))
      | Inr ls \<Rightarrow> Inr (xs @ ls @ replicate (m - length ls) [], length xs + length ls))"
proof (induction docs arbitrary: xs m)
  case Nil
  then show ?case by simp
next
  case (Cons d ds)
  from Cons.prems have m: "0 < m" "1 < m" "2 * length ds < m - 1" "2 * length ds < m - 2" by simp_all
  show ?case
  proof (cases "Marshal E (Document_action d)")
    case (Inl err)
    then show ?thesis by (simp add: Document_lines_def)
  next
    case (Inr a)
    show ?thesis
    proof (cases "Fields_malformed (Fields d)")
      case True
      with Inr m show ?thesis by (simp add: Document_lines_def BulkSend_Fields_eq)
    next
      case wf: False
      show ?thesis
      proof (cases "Fields_nonempty (Fields d)")
        case False
        have "BulkSend_loop E (d # ds) (xs @ replicate m []) (length xs) =
            BulkSend_loop E ds ((xs @ [a]) @ replicate (m - 1) []) (length (xs @ [a]))"
          using Inr wf False m by (simp add: BulkSend_Fields_eq update_first_free del: append_assoc)
        also have "\<dots> = (case bulk_lines E ds of
            Inl err \<Rightarrow> Inl (Inr (Some Response0, Some err))
          | Inr ls \<Rightarrow> Inr ((xs @ [a]) @ ls @ replicate (m - 1 - length ls) [], length (xs @ [a]) + length ls))"
          by (rule Cons.IH [OF m(3)])
        finally show ?thesis
          using Inr wf False by (simp add: Document_lines_def split: sum.splits)
      next
        case True
        show ?thesis
        proof (cases "Marshal E (Fields d)")
          case (Inl err)
          with Inr wf True m show ?thesis by (simp add: Document_lines_def BulkSend_Fields_eq)
        next
          case s: (Inr s)
          have "BulkSend_loop E (d # ds) (xs @ replicate m []) (length xs) =
              BulkSend_loop E ds ((xs @ [a, s]) @ replicate (m - 2) []) (length (xs @ [a, s]))"
            using Inr wf True s m
            by (simp add: BulkSend_Fields_eq update_two_free [simplified])
          also have "\<dots> = (case bulk_lines E ds of
              Inl err \<Rightarrow> Inl (Inr (Some Response0, Some err))
            | Inr ls \<Rightarrow> Inr ((xs @ [a, s]) @ ls @ replicate (m - 2 - length ls) [],
                             length (xs @ [a, s]) + length ls))"
            by (rule Cons.IH [OF m(4)])
          finally show ?thesis
            using Inr wf True s by (simp add: Document_lines_def split: sum.splits)
        qed
      qed
    qed
  qed
qed

lemma update_last_free:
  assumes "0 < k"
  shows "(ls @ replicate k [])[length (ls @ replicate k []) - 1 := []] = ls @ replicate k ([] :: bytes)"
proof -
  have "(ls @ replicate k []) ! (length (ls @ replicate k []) - 1) = ([] :: bytes)"
    using assms by (auto simp add: nth_append)
  then show ?thesis by (metis list_update_id)
qed

lemma BulkSend_encode_lines:
  "BulkSend_encode E docs =
     (case bulk_lines E docs of
        Inl err \<Rightarrow> Inl (Inr (Some Response0, Some err))
      | Inr ls \<Rightarrow> Inr (bytes_Join (ls @ replicate (2 * length docs + 1 - length ls) []) [CHR 0x0A]))"
proof (cases "bulk_lines E docs")
  case (Inl err)
  with BulkSend_loop_lines [of docs "2 * length docs + 1" E "[]"]
  show ?thesis by (simp add: BulkSend_encode_def mult.commute)
next
  case (Inr ls)
  from bulk_lines_length [OF Inr] have k: "0 < 2 * length docs + 1 - length ls" by simp
  from Inr BulkSend_loop_lines [of docs "2 * length docs + 1" E "[]"]
  have "BulkSend_loop E docs (replicate (length docs * 2 + 1) []) 0 =
      Inr (ls @ replicate (2 * length docs + 1 - length ls) [], length ls)"
    by (simp add: mult.commute)
  with Inr k update_last_free [OF k, of ls] show ?thesis
    by (simp add: BulkSend_encode_def)
qed

lemma bytes_Split_plain: "sep \<notin> set x \<Longrightarrow> bytes_Split x sep = [x]"
  by (induction x) auto

lemma bytes_Split_append:
  "sep \<notin> set x \<Longrightarrow> bytes_Split (x @ sep # rest) sep = x # bytes_Split rest sep"
  by (induction x) auto

lemma bytes_Split_Join:
  "segs \<noteq> [] \<Longrightarrow> \<forall>s \<in> set segs. sep \<notin> set s \<Longrightarrow> bytes_Split (bytes_Join segs [sep]) sep = segs"
proof (induction segs "[sep]" rule: bytes_Join.induct)
  case 1
  then show ?case by simp
next
  case (2 x)
  then show ?case by (simp add: bytes_Split_plain)
next
  case (3 x y ys)
  then show ?case by (simp add: bytes_Split_append)
qed

lemma Document_lines_Inr:
  "Document_lines E d = Inr ls \<Longrightarrow>
     length ls = (if Fields_nonempty (Fields d) then 2 else 1)
     \<and> (\<forall>l \<in> set ls. Marshal E (Document_action d) = Inr l
           \<or> (Fields_nonempty (Fields d) \<and> Marshal E (Fields d) = Inr l))"
  by (auto simp add: Document_lines_def split: sum.splits if_splits)

lemma bulk_lines_Inr:
  "bulk_lines E docs = Inr ls \<Longrightarrow>
     (\<forall>d \<in> set docs. \<exists>dl. Document_lines E d = Inr dl)
     \<and> (\<forall>l \<in> set ls. \<exists>d \<in> set docs. Marshal E (Document_action d) = Inr l
           \<or> (Fields_nonempty (Fields d) \<and> Marshal E (Fields d) = Inr l))"
proof (induction docs arbitrary: ls)
  case Nil
  then show ?case by simp
next
  case (Cons d ds)
  from Cons.prems obtain dl rest where dl: "Document_lines E d = Inr dl"
    and rest: "bulk_lines E ds = Inr rest" and ls: "ls = dl @ rest"
    by (auto split: sum.splits)
  from Cons.IH [OF rest] Document_lines_Inr [OF dl] dl ls show ?case
    by auto
qed

text \<open>
  The body, byte by byte: every line followed by one newline, then one more newline for each
  slot of \<^verbatim>\<open>bulkData\<close> the loop left empty, short of the last.
\<close>

lemma bytes_Join_blank: "bytes_Join (replicate (Suc k) []) [c] = replicate k c"
  by (induction k) simp_all

lemma bytes_Join_lines:
  "bytes_Join (ls @ replicate (Suc k) []) [c] = concat (map (\<lambda>l. l @ [c]) ls) @ replicate k c"
proof (induction ls)
  case Nil
  then show ?case using bytes_Join_blank [of k c] by simp
next
  case (Cons l ls)
  obtain y ys where tail: "ls @ replicate (Suc k) [] = y # ys"
    by (cases "ls @ replicate (Suc k) []") simp_all
  have "bytes_Join (l # y # ys) [c] = l @ [c] @ bytes_Join (y # ys) [c]"
    by simp
  with Cons.IH tail show ?case by simp
qed

lemma bulk_body_shape:
  assumes "BulkSend_encode E documents = Inr data"
  shows "\<exists>ls. bulk_lines E documents = Inr ls
    \<and> data = concat (map (\<lambda>l. l @ [CHR 0x0A]) ls)
             @ replicate (2 * length documents - length ls) (CHR 0x0A)"
proof -
  from assms obtain ls where ls: "bulk_lines E documents = Inr ls"
    and data: "data = bytes_Join (ls @ replicate (2 * length documents + 1 - length ls) []) [CHR 0x0A]"
    by (auto simp add: BulkSend_encode_lines split: sum.splits)
  from bulk_lines_length [OF ls]
  have "2 * length documents + 1 - length ls = Suc (2 * length documents - length ls)"
    by simp
  with data bytes_Join_lines [of ls "2 * length documents - length ls" "CHR 0x0A"] ls
  show ?thesis by simp
qed

text \<open>
  Claim C2, as amended.  Let the batch be encoded, every encoding that succeeds giving a line
  (not empty, no newline in it).  Then the non-empty segments of the body split on the newline
  are the JSON lines of the documents, in order: for each document its action line, followed by
  its source line exactly when its \<^verbatim>\<open>Fields\<close> is not empty (a non-empty map, or a struct or
  pointer to a struct with a field), whatever its \<^verbatim>\<open>BulkCommand\<close>; so two lines for such a
  document and one for a document whose \<^verbatim>\<open>Fields\<close> is nil or empty.  The split has at most
  \<open>2n + 1\<close> segments for \<open>n\<close> documents, and its last segment is empty.
\<close>

theorem bulk_lines_of_body:
  assumes "BulkSend_encode E documents = Inr data"
    and "\<forall>d \<in> set documents. line_or_error (Marshal E (Document_action d))
           \<and> (Fields_nonempty (Fields d) \<longrightarrow> line_or_error (Marshal E (Fields d)))"
  shows "bulk_lines E documents = Inr (filter (\<lambda>s. s \<noteq> []) (bytes_Split data (CHR 0x0A)))
    \<and> (\<forall>d \<in> set documents. \<exists>ls. Document_lines E d = Inr ls
          \<and> length ls = (if Fields_nonempty (Fields d) then 2 else 1))
    \<and> length (bytes_Split data (CHR 0x0A)) \<le> 2 * length documents + 1
    \<and> last (bytes_Split data (CHR 0x0A)) = []"
proof -
  let ?n = "length documents"
  from assms(1) obtain ls where ls: "bulk_lines E documents = Inr ls"
    and data: "data = bytes_Join (ls @ replicate (2 * ?n + 1 - length ls) []) [CHR 0x0A]"
    by (auto simp add: BulkSend_encode_lines split: sum.splits)
  let ?k = "2 * ?n + 1 - length ls"
  from bulk_lines_length [OF ls] have k: "0 < ?k" "length ls + ?k = 2 * ?n + 1" by simp_all
  from bulk_lines_Inr [OF ls] assms(2) have lines: "\<forall>l \<in> set ls. is_line l"
    by (fastforce simp add: line_or_error_def)
  have segs: "ls @ replicate ?k [] \<noteq> []" "\<forall>s \<in> set (ls @ replicate ?k []). CHR 0x0A \<notin> set s"
    using k lines by (auto simp add: is_line_def)
  have split: "bytes_Split data (CHR 0x0A) = ls @ replicate ?k []"
    unfolding data by (rule bytes_Split_Join [OF segs])
  have "filter (\<lambda>s. s \<noteq> []) (ls @ replicate ?k []) = ls"
    using lines by (simp add: is_line_def filter_id_conv)
  moreover have "\<forall>d \<in> set documents. \<exists>dl. Document_lines E d = Inr dl
          \<and> length dl = (if Fields_nonempty (Fields d) then 2 else 1)"
    using bulk_lines_Inr [OF ls] Document_lines_Inr by blast
  moreover have "last (ls @ replicate ?k []) = []"
    using k by (cases ?k) simp_all
  ultimately show ?thesis
    using ls split k by simp
qed

text \<open>
  Claim C2 as stated fails: a document with the command \<^verbatim>\<open>delete\<close> and a non-empty
  \<^verbatim>\<open>Fields\<close> gets two JSON lines, its action and its source; \<^verbatim>\<open>BulkSend\<close> never looks at
  the command to decide.
\<close>

theorem bulk_lines_of_body_counterexample:
  \<open>BulkSend_encode example_env
     [\<lparr>Index = GString ''i'', Type = ''t'', ID = GString ''1'', BulkCommand = ''delete'',
       Fields = GMap (Some [(''a'', GString ''b'')])\<rparr>]
   = Inr (''{"delete":{"_id":"1","_index":"i","_type":"t"}}'' @ [CHR 0x0A] @ ''{"a":"b"}'' @ [CHR 0x0A])\<close>
  by code_simp

text \<open>
  A batch of three: an \<^verbatim>\<open>index\<close> with a source, a \<^verbatim>\<open>delete\<close> without \<^verbatim>\<open>Fields\<close>, an
  \<^verbatim>\<open>index\<close> with an empty map.
\<close>

theorem bulk_lines_of_body_witness:
  \<open>bulk_lines example_env
     [\<lparr>Index = GString ''i'', Type = ''t'', ID = GString ''1'', BulkCommand = ''index'',
        Fields = GMap (Some [(''a'', GString ''b'')])\<rparr>,
      \<lparr>Index = GString ''i'', Type = ''t'', ID = GString ''2'', BulkCommand = ''delete'',
        Fields = GNil\<rparr>,
      \<lparr>Index = GString ''i'', Type = ''t'', ID = GString ''3'', BulkCommand = ''index'',
        Fields = GMap (Some [])\<rparr>]
    = Inr [''{"index":{"_id":"1","_index":"i","_type":"t"}}'', ''{"a":"b"}'',
           ''{"delete":{"_id":"2","_index":"i","_type":"t"}}'',
           ''{"index":{"_id":"3","_index":"i","_type":"t"}}'']\<close>
proof -
  let ?docs = "[\<lparr>Index = GString ''i'', Type = ''t'', ID = GString ''1'', BulkCommand = ''index'',
        Fields = GMap (Some [(''a'', GString ''b'')])\<rparr>,
      \<lparr>Index = GString ''i'', Type = ''t'', ID = GString ''2'', BulkCommand = ''delete'',
        Fields = GNil\<rparr>,
      \<lparr>Index = GString ''i'', Type = ''t'', ID = GString ''3'', BulkCommand = ''index'',
        Fields = GMap (Some [])\<rparr>]"
  let ?data = \<open>''{"index":{"_id":"1","_index":"i","_type":"t"}}'' @ [CHR 0x0A] @ ''{"a":"b"}'' @ [CHR 0x0A]
     @ ''{"delete":{"_id":"2","_index":"i","_type":"t"}}'' @ [CHR 0x0A]
     @ ''{"index":{"_id":"3","_index":"i","_type":"t"}}'' @ [CHR 0x0A, CHR 0x0A, CHR 0x0A]\<close>
  have 1: "BulkSend_encode example_env ?docs = Inr ?data"
    by code_simp
  have 2: "\<forall>d \<in> set ?docs. line_or_error (Marshal example_env (Document_action d))
           \<and> (Fields_nonempty (Fields d) \<longrightarrow> line_or_error (Marshal example_env (Fields d)))"
    by code_simp
  have 3: \<open>filter (\<lambda>s. s \<noteq> []) (bytes_Split ?data (CHR 0x0A)) =
      [''{"index":{"_id":"1","_index":"i","_type":"t"}}'', ''{"a":"b"}'',
           ''{"delete":{"_id":"2","_index":"i","_type":"t"}}'',
           ''{"index":{"_id":"3","_index":"i","_type":"t"}}'']\<close>
    by simp
  from bulk_lines_of_body [OF 1 2] 3 show ?thesis by simp
qed

section \<open>Failures while the bulk body is built\<close>

lemma bulk_lines_first_failure:
  "\<forall>p \<in> set pre. \<exists>ls. Document_lines E p = Inr ls \<Longrightarrow> Document_lines E d = Inl err \<Longrightarrow>
     bulk_lines E (pre @ d # post) = Inl err"
  by (induction pre) auto

lemma bulk_lines_some_failure:
  "d \<in> set docs \<Longrightarrow> Document_lines E d = Inl e \<Longrightarrow> \<exists>err. bulk_lines E docs = Inl err"
  by (induction docs) (auto split: sum.splits)

lemma Fields_malformed_empty: "Fields_malformed f \<Longrightarrow> \<not> Fields_nonempty f"
  by (induction f rule: Fields_nonempty.induct) simp_all

lemma BulkSend_fails:
  "bulk_lines E documents = Inl err \<Longrightarrow>
     BulkSend E c documents net = (Inr (Some Response0, Some err), net)"
  by (simp add: BulkSend_def BulkSend_encode_lines)

text \<open>
  Claim C6.  If some document of the batch has a \<^verbatim>\<open>Fields\<close> that is there and is neither a
  \<^verbatim>\<open>map[string]interface{}\<close> nor a struct nor a pointer to a struct, or the encoding of some
  action line or source line fails, \<^verbatim>\<open>BulkSend\<close> returns an error with the empty response,
  and no request goes out.  The error is that of the first line that fails, in the order of the
  documents: the error of the encoder for an action or a source line, the format error for
  malformed \<^verbatim>\<open>Fields\<close>; nothing of the lines encoded before it is kept.
\<close>

theorem bulk_all_or_nothing:
  "((\<exists>d \<in> set documents.
        Fields_malformed (Fields d)
        \<or> (\<exists>e. Marshal E (Document_action d) = Inl e)
        \<or> (Fields_nonempty (Fields d) \<and> (\<exists>e. Marshal E (Fields d) = Inl e))) \<longrightarrow>
     (\<exists>err. BulkSend E c documents net = (Inr (Some Response0, Some err), net)))
   \<and> (\<forall>pre d post err.
        documents = pre @ d # post
        \<and> (\<forall>p \<in> set pre. \<exists>ls. Document_lines E p = Inr ls)
        \<and> (Marshal E (Document_action d) = Inl err
            \<or> (\<exists>a. Marshal E (Document_action d) = Inr a) \<and> Fields_malformed (Fields d)
                \<and> err = Fields_error
            \<or> (\<exists>a. Marshal E (Document_action d) = Inr a) \<and> Fields_nonempty (Fields d)
                \<and> Marshal E (Fields d) = Inl err) \<longrightarrow>
        BulkSend E c documents net = (Inr (Some Response0, Some err), net))"
proof (intro conjI allI impI)
  assume "\<exists>d \<in> set documents.
        Fields_malformed (Fields d)
        \<or> (\<exists>e. Marshal E (Document_action d) = Inl e)
        \<or> (Fields_nonempty (Fields d) \<and> (\<exists>e. Marshal E (Fields d) = Inl e))"
  then obtain d where d: "d \<in> set documents"
    and bad: "Fields_malformed (Fields d)
        \<or> (\<exists>e. Marshal E (Document_action d) = Inl e)
        \<or> (Fields_nonempty (Fields d) \<and> (\<exists>e. Marshal E (Fields d) = Inl e))"
    by blast
  from bad have "\<exists>e. Document_lines E d = Inl e"
    by (auto simp add: Document_lines_def split: sum.splits)
  with d obtain err where "bulk_lines E documents = Inl err"
    using bulk_lines_some_failure by blast
  then show "\<exists>err. BulkSend E c documents net = (Inr (Some Response0, Some err), net)"
    using BulkSend_fails by blast
next
  fix pre d post err
  assume a: "documents = pre @ d # post
        \<and> (\<forall>p \<in> set pre. \<exists>ls. Document_lines E p = Inr ls)
        \<and> (Marshal E (Document_action d) = Inl err
            \<or> (\<exists>a. Marshal E (Document_action d) = Inr a) \<and> Fields_malformed (Fields d)
                \<and> err = Fields_error
            \<or> (\<exists>a. Marshal E (Document_action d) = Inr a) \<and> Fields_nonempty (Fields d)
                \<and> Marshal E (Fields d) = Inl err)"
  then have "Document_lines E d = Inl err"
    using Fields_malformed_empty [of "Fields d"]
    by (auto simp add: Document_lines_def split: sum.splits)
  with a have "bulk_lines E documents = Inl err"
    using bulk_lines_first_failure by blast
  then show "BulkSend E c documents net = (Inr (Some Response0, Some err), net)"
    by (rule BulkSend_fails)
qed

text \<open>
  Two batches whose second document fails, one on a \<^verbatim>\<open>Fields\<close> that is a string, one on a
  source that holds a channel; the first document of each encodes.
\<close>

theorem bulk_all_or_nothing_witness:
  "BulkSend example_env (example_client 200 ''{}'')
     [\<lparr>Index = GString ''i'', Type = ''t'', ID = GString ''1'', BulkCommand = ''index'',
        Fields = GMap (Some [(''a'', GString ''b'')])\<rparr>,
      \<lparr>Index = GString ''i'', Type = ''t'', ID = GString ''2'', BulkCommand = ''index'',
        Fields = GString ''text''\<rparr>] []
    = (Inr (Some Response0,
         Some (errorString ''Document fields not in struct or map[string]interface{} format'')), [])
   \<and> BulkSend example_env (example_client 200 ''{}'')
     [\<lparr>Index = GString ''i'', Type = ''t'', ID = GString ''1'', BulkCommand = ''index'',
        Fields = GMap (Some [(''a'', GString ''b'')])\<rparr>,
      \<lparr>Index = GString ''i'', Type = ''t'', ID = GString ''2'', BulkCommand = ''index'',
        Fields = GMap (Some [(''c'', GChan)])\<rparr>] []
    = (Inr (Some Response0, Some (libraryError ''json: unsupported type: chan int'')), [])"
proof -
  let ?E = example_env and ?c = "example_client 200 ''{}''"
  let ?good = "\<lparr>Index = GString ''i'', Type = ''t'', ID = GString ''1'', BulkCommand = ''index'',
        Fields = GMap (Some [(''a'', GString ''b'')])\<rparr>"
  let ?text = "\<lparr>Index = GString ''i'', Type = ''t'', ID = GString ''2'', BulkCommand = ''index'',
        Fields = GString ''text''\<rparr>"
  let ?chan = "\<lparr>Index = GString ''i'', Type = ''t'', ID = GString ''2'', BulkCommand = ''index'',
        Fields = GMap (Some [(''c'', GChan)])\<rparr>"
  let ?e1 = "errorString ''Document fields not in struct or map[string]interface{} format''"
  let ?e2 = "libraryError ''json: unsupported type: chan int''"
  have good: "\<forall>p \<in> set [?good]. \<exists>ls. Document_lines ?E p = Inr ls"
    by (simp add: Document_lines_def example_env_def example_Marshal_def Document_action_def len_map_def)
  have a1: "\<exists>a. Marshal ?E (Document_action ?text) = Inr a"
    by (simp add: example_env_def example_Marshal_def Document_action_def)
  have a2: "\<exists>a. Marshal ?E (Document_action ?chan) = Inr a"
    by (simp add: example_env_def example_Marshal_def Document_action_def)
  have b1: "Fields_malformed (Fields ?text) \<and> ?e1 = Fields_error"
    by (simp add: Fields_error_def)
  have b2: "Fields_nonempty (Fields ?chan) \<and> Marshal ?E (Fields ?chan) = Inl ?e2"
    by (simp add: example_env_def example_Marshal_def len_map_def)
  have h1: "[?good, ?text] = [?good] @ ?text # []
        \<and> (\<forall>p \<in> set [?good]. \<exists>ls. Document_lines ?E p = Inr ls)
        \<and> (Marshal ?E (Document_action ?text) = Inl ?e1
            \<or> (\<exists>a. Marshal ?E (Document_action ?text) = Inr a) \<and> Fields_malformed (Fields ?text)
                \<and> ?e1 = Fields_error
            \<or> (\<exists>a. Marshal ?E (Document_action ?text) = Inr a) \<and> Fields_nonempty (Fields ?text)
                \<and> Marshal ?E (Fields ?text) = Inl ?e1)"
    using good a1 b1 by simp
  have h2: "[?good, ?chan] = [?good] @ ?chan # []
        \<and> (\<forall>p \<in> set [?good]. \<exists>ls. Document_lines ?E p = Inr ls)
        \<and> (Marshal ?E (Document_action ?chan) = Inl ?e2
            \<or> (\<exists>a. Marshal ?E (Document_action ?chan) = Inr a) \<and> Fields_malformed (Fields ?chan)
                \<and> ?e2 = Fields_error
            \<or> (\<exists>a. Marshal ?E (Document_action ?chan) = Inr a) \<and> Fields_nonempty (Fields ?chan)
                \<and> Marshal ?E (Fields ?chan) = Inl ?e2)"
    using good a2 b2 by simp
  from bulk_all_or_nothing [of "[?good, ?text]" ?E ?c "[]", THEN conjunct2, rule_format, OF h1]
       bulk_all_or_nothing [of "[?good, ?chan]" ?E ?c "[]", THEN conjunct2, rule_format, OF h2]
  show ?thesis by simp
qed

section \<open>The trailing newline\<close>

text \<open>
  Claim C1 (the code departs from it).  The comments of \<^verbatim>\<open>BulkSend\<close> ask for one line of
  JSON per line and one extra newline at the very end.  For a batch of one \<^verbatim>\<open>delete\<close>
  document without \<^verbatim>\<open>Fields\<close> the body ends with two newlines: the slot kept for the source
  line stays empty and is joined as well (\<open>bulk_body_shape\<close> gives the count for any batch).
\<close>

theorem bulk_trailing_newlines:
  \<open>BulkSend_encode example_env
     [\<lparr>Index = GString ''i'', Type = ''t'', ID = GString ''1'', BulkCommand = ''delete'',
       Fields = GNil\<rparr>]
   = Inr (''{"delete":{"_id":"1","_index":"i","_type":"t"}}'' @ [CHR 0x0A, CHR 0x0A])\<close>
  by code_simp

end
